theory Spec2Isabelle
  imports Main
begin

section \<open>The HTML-to-JSX converter of Web-To-React\<close>

text \<open>
  A shallow embedding of \<^verbatim>\<open>src/converters/convertHTMLtoJSX.js\<close>.

  The module drives a SAX-style parser (the third-party package htmlparser2) with three
  handlers, \<^verbatim>\<open>onopentag\<close>, \<^verbatim>\<open>ontext\<close> and \<^verbatim>\<open>onclosetag\<close>. The parser is not part of the
  repository, so the embedding starts where the repository's code starts: at the sequence
  of events the parser delivers. A document is the list of its events; an open-tag event
  carries the attribute object as the list of its entries, in the order in which
  \<^verbatim>\<open>Object.entries\<close> enumerates them.

  Strings are lists of characters. The case mappings and the white-space class are those
  of ASCII text; characters outside ASCII are left as they are.

  The module-level variables \<^verbatim>\<open>customClassCounter\<close>, \<^verbatim>\<open>cssVarMap\<close> and
  \<^verbatim>\<open>imageImportsMap\<close> are the fields of a record that every function takes and returns.
  \<^verbatim>\<open>sanitizedFilenameMap\<close> is only read during a conversion and is a parameter: the
  function that looks a property up in the mapping object.
\<close>

subsection \<open>String primitives of the runtime\<close>

definition upperAZ :: string where
  "upperAZ = ''ABCDEFGHIJKLMNOPQRSTUVWXYZ''"

definition lowerAZ :: string where
  "lowerAZ = ''abcdefghijklmnopqrstuvwxyz''"

definition isLowerAZ :: "char \<Rightarrow> bool" where
  "isLowerAZ c = (c \<in> set lowerAZ)"

definition isAlpha :: "char \<Rightarrow> bool" where
  "isAlpha c = (c \<in> set lowerAZ \<or> c \<in> set upperAZ)"

text \<open>The class \<^verbatim>\<open>\s\<close> of a regular expression, and what \<^verbatim>\<open>trim\<close> removes.\<close>

definition isSpace :: "char \<Rightarrow> bool" where
  "isSpace c = (c \<in> set [CHR 0x09, CHR 0x0A, CHR 0x0B, CHR 0x0C, CHR 0x0D, CHR 0x20])"

definition toLowerChar :: "char \<Rightarrow> char" where
  "toLowerChar c = (case map_of (zip upperAZ lowerAZ) c of Some d \<Rightarrow> d | None \<Rightarrow> c)"

definition toUpperChar :: "char \<Rightarrow> char" where
  "toUpperChar c = (case map_of (zip lowerAZ upperAZ) c of Some d \<Rightarrow> d | None \<Rightarrow> c)"

definition toLowerCase :: "string \<Rightarrow> string" where
  "toLowerCase s = map toLowerChar s"

definition toUpperCase :: "string \<Rightarrow> string" where
  "toUpperCase s = map toUpperChar s"

definition trim :: "string \<Rightarrow> string" where
  "trim s = rev (dropWhile isSpace (rev (dropWhile isSpace s)))"

definition startsWith :: "string \<Rightarrow> string \<Rightarrow> bool" where
  "startsWith s p = (take (length p) s = p)"

definition endsWith :: "string \<Rightarrow> string \<Rightarrow> bool" where
  "endsWith s p = (take (length p) (rev s) = rev p)"

fun strIncludes :: "string \<Rightarrow> string \<Rightarrow> bool" where
  "strIncludes [] p = (p = [])"
| "strIncludes (x # xs) p = (take (length p) (x # xs) = p \<or> strIncludes xs p)"

text \<open>\<^verbatim>\<open>s.split(c)\<close> for a separator of one character: never empty.\<close>

fun splitChar :: "char \<Rightarrow> string \<Rightarrow> string list" where
  "splitChar c [] = [[]]"
| "splitChar c (x # xs) =
     (if x = c then [] # splitChar c xs
      else (case splitChar c xs of [] \<Rightarrow> [[x]] | p # ps \<Rightarrow> (x # p) # ps))"

text \<open>\<^verbatim>\<open>s.split(sep)\<close> for a separator of one character or more.\<close>

fun splitStr :: "string \<Rightarrow> string \<Rightarrow> string list" where
  "splitStr sep [] = [[]]"
| "splitStr sep (x # xs) =
     (if take (length sep) (x # xs) = sep then [] # splitStr sep (drop (length sep - 1) xs)
      else (case splitStr sep xs of [] \<Rightarrow> [[x]] | p # ps \<Rightarrow> (x # p) # ps))"

text \<open>\<^verbatim>\<open>s.charAt(0).toUpperCase() + s.slice(1)\<close>\<close>

fun capitalize :: "string \<Rightarrow> string" where
  "capitalize [] = []"
| "capitalize (c # cs) = toUpperChar c # cs"

text \<open>\<^verbatim>\<open>s.replace(/-([a-z])/g, (_, c) => c.toUpperCase())\<close>\<close>

fun camelCase :: "string \<Rightarrow> string" where
  "camelCase (a # b # cs) =
     (if a = CHR ''-'' \<and> isLowerAZ b then toUpperChar b # camelCase cs
      else a # camelCase (b # cs))"
| "camelCase cs = cs"

text \<open>\<^verbatim>\<open>s.replace(/c/g, rep)\<close> for one character \<^verbatim>\<open>c\<close>\<close>

definition replaceAllChar :: "char \<Rightarrow> string \<Rightarrow> string \<Rightarrow> string" where
  "replaceAllChar c rep s = concat (map (\<lambda>x. if x = c then rep else [x]) s)"

text \<open>\<^verbatim>\<open>s.replace(/"/g, '&quot;')\<close>\<close>

definition escapeQuotes :: "string \<Rightarrow> string" where
  "escapeQuotes s = replaceAllChar (CHR 0x22) ''&quot;'' s"

text \<open>\<^verbatim>\<open>parts.join(sep)\<close>\<close>

fun join :: "string \<Rightarrow> string list \<Rightarrow> string" where
  "join sep [] = []"
| "join sep [x] = x"
| "join sep (x # y # ys) = x @ sep @ join sep (y # ys)"

text \<open>
  Assignment to a property of an object, and \<^verbatim>\<open>Map.set\<close>: a key that is present keeps
  its place and takes the new value, a new key goes to the end.
\<close>

fun assign :: "'k \<Rightarrow> 'v \<Rightarrow> ('k \<times> 'v) list \<Rightarrow> ('k \<times> 'v) list" where
  "assign k v [] = [(k, v)]"
| "assign k v ((k', v') # kvs) =
     (if k' = k then (k, v) # kvs else (k', v') # assign k v kvs)"

text \<open>A property read in a condition: \<^verbatim>\<open>undefined\<close> and the empty string are falsy.\<close>

definition truthy :: "string option \<Rightarrow> bool" where
  "truthy v = (case v of None \<Rightarrow> False | Some s \<Rightarrow> s \<noteq> [])"

text \<open>The decimal digits of a number, as a template literal prints it.\<close>

definition digitChar :: "nat \<Rightarrow> char" where
  "digitChar d = (''0123456789'' ! d)"

fun showNat :: "nat \<Rightarrow> string" where
  "showNat n = (if n < 10 then [digitChar n] else showNat (n div 10) @ [digitChar (n mod 10)])"

declare showNat.simps [simp del]

subsection \<open>The tables of the module\<close>

definition attributeRenameMap :: "(string \<times> string) list" where
  "attributeRenameMap = [
    (''class'', ''className''), (''for'', ''htmlFor''), (''readonly'', ''readOnly''),
    (''maxlength'', ''maxLength''), (''tabindex'', ''tabIndex''),
    (''colspan'', ''colSpan''), (''rowspan'', ''rowSpan''),
    (''contenteditable'', ''contentEditable''), (''autocomplete'', ''autoComplete''),
    (''autofocus'', ''autoFocus''), (''autoplay'', ''autoPlay''), (''srcset'', ''srcSet''),
    (''crossorigin'', ''crossOrigin''), (''enctype'', ''encType''),
    (''novalidate'', ''noValidate''), (''usemap'', ''useMap''), (''viewbox'', ''viewBox''),
    (''preserveaspectratio'', ''preserveAspectRatio''), (''fill-rule'', ''fillRule''),
    (''clip-rule'', ''clipRule''), (''fill-opacity'', ''fillOpacity''),
    (''stroke-width'', ''strokeWidth''), (''stroke-linecap'', ''strokeLinecap''),
    (''stroke-linejoin'', ''strokeLinejoin''), (''stroke-dasharray'', ''strokeDasharray''),
    (''stroke-dashoffset'', ''strokeDashoffset''), (''stroke-opacity'', ''strokeOpacity''),
    (''spellcheck'', ''spellCheck''), (''datetime'', ''dateTime''),
    (''acceptcharset'', ''acceptCharset''), (''allowfullscreen'', ''allowFullScreen''),
    (''inputmode'', ''inputMode''), (''hreflang'', ''hrefLang''),
    (''referrerpolicy'', ''referrerPolicy'')]"

definition svgAttributes :: "(string \<times> string) list" where
  "svgAttributes = [
    (''accent-height'', ''accentHeight''), (''alignment-baseline'', ''alignmentBaseline''),
    (''arabic-form'', ''arabicForm''), (''baseline-shift'', ''baselineShift''),
    (''cap-height'', ''capHeight''), (''clip-path'', ''clipPath''),
    (''color-interpolation'', ''colorInterpolation''),
    (''color-interpolation-filters'', ''colorInterpolationFilters''),
    (''color-profile'', ''colorProfile''), (''color-rendering'', ''colorRendering''),
    (''dominant-baseline'', ''dominantBaseline''),
    (''enable-background'', ''enableBackground''), (''flood-color'', ''floodColor''),
    (''flood-opacity'', ''floodOpacity''), (''font-family'', ''fontFamily''),
    (''font-size'', ''fontSize''), (''font-size-adjust'', ''fontSizeAdjust''),
    (''font-stretch'', ''fontStretch''), (''font-style'', ''fontStyle''),
    (''font-variant'', ''fontVariant''), (''font-weight'', ''fontWeight''),
    (''glyph-name'', ''glyphName''),
    (''glyph-orientation-horizontal'', ''glyphOrientationHorizontal''),
    (''glyph-orientation-vertical'', ''glyphOrientationVertical''),
    (''horiz-adv-x'', ''horizAdvX''), (''horiz-origin-x'', ''horizOriginX''),
    (''image-rendering'', ''imageRendering''), (''letter-spacing'', ''letterSpacing''),
    (''lighting-color'', ''lightingColor''), (''marker-end'', ''markerEnd''),
    (''marker-mid'', ''markerMid''), (''marker-start'', ''markerStart''),
    (''overline-position'', ''overlinePosition''),
    (''overline-thickness'', ''overlineThickness''), (''paint-order'', ''paintOrder''),
    (''panose-1'', ''panose1''), (''pointer-events'', ''pointerEvents''),
    (''rendering-intent'', ''renderingIntent''), (''shape-rendering'', ''shapeRendering''),
    (''stop-color'', ''stopColor''), (''stop-opacity'', ''stopOpacity''),
    (''strikethrough-position'', ''strikethroughPosition''),
    (''strikethrough-thickness'', ''strikethroughThickness''),
    (''stroke-dasharray'', ''strokeDasharray''),
    (''stroke-dashoffset'', ''strokeDashoffset''), (''stroke-linecap'', ''strokeLinecap''),
    (''stroke-linejoin'', ''strokeLinejoin''),
    (''stroke-miterlimit'', ''strokeMiterlimit''), (''stroke-opacity'', ''strokeOpacity''),
    (''stroke-width'', ''strokeWidth''), (''text-anchor'', ''textAnchor''),
    (''text-decoration'', ''textDecoration''), (''text-rendering'', ''textRendering''),
    (''underline-position'', ''underlinePosition''),
    (''underline-thickness'', ''underlineThickness''), (''unicode-bidi'', ''unicodeBidi''),
    (''unicode-range'', ''unicodeRange''), (''units-per-em'', ''unitsPerEm''),
    (''v-alphabetic'', ''vAlphabetic''), (''v-hanging'', ''vHanging''),
    (''v-ideographic'', ''vIdeographic''), (''v-mathematical'', ''vMathematical''),
    (''vector-effect'', ''vectorEffect''), (''vert-adv-y'', ''vertAdvY''),
    (''vert-origin-x'', ''vertOriginX''), (''vert-origin-y'', ''vertOriginY''),
    (''word-spacing'', ''wordSpacing''), (''writing-mode'', ''writingMode''),
    (''x-height'', ''xHeight''), (''xlink:actuate'', ''xlinkActuate''),
    (''xlink:arcrole'', ''xlinkArcrole''), (''xlink:href'', ''xlinkHref''),
    (''xlink:role'', ''xlinkRole''), (''xlink:show'', ''xlinkShow''),
    (''xlink:title'', ''xlinkTitle''), (''xlink:type'', ''xlinkType''),
    (''xml:base'', ''xmlBase''), (''xml:lang'', ''xmlLang''), (''xml:space'', ''xmlSpace'')]"

text \<open>
  \<^verbatim>\<open>attributeRenameMap[k]\<close> after the module has copied \<^verbatim>\<open>svgAttributes\<close> into the table.
  The table is an ordinary object, so a key it does not own is looked up in
  \<^verbatim>\<open>Object.prototype\<close>: of the inherited properties, \<^verbatim>\<open>constructor\<close> and \<^verbatim>\<open>__proto__\<close>
  are written in lower case, and their values print as below.
\<close>

definition attributeRenameLookup :: "string \<Rightarrow> string option" where
  "attributeRenameLookup k =
     (case map_of (svgAttributes @ attributeRenameMap) k of
        Some v \<Rightarrow> Some v
      | None \<Rightarrow>
          map_of [(''constructor'', ''function Object() { [native code] }''),
                  (''__proto__'', ''[object Object]'')] k)"

definition booleanAttributes :: "string list" where
  "booleanAttributes = [
    ''disabled'', ''checked'', ''readonly'', ''required'',
    ''autofocus'', ''selected'', ''multiple'', ''novalidate'',
    ''allowfullscreen'', ''autoplay'', ''controls'', ''loop'',
    ''muted'', ''playsinline'', ''default'', ''ismap'',
    ''reversed'', ''async'', ''defer'', ''nomodule'',
    ''spellcheck'', ''autocomplete'', ''translate'', ''contenteditable'']"

definition selfClosingTags :: "string list" where
  "selfClosingTags = [
    ''area'', ''base'', ''br'', ''col'', ''embed'',
    ''hr'', ''img'', ''input'', ''keygen'', ''link'',
    ''meta'', ''param'', ''source'', ''track'', ''wbr'']"

definition skipTags :: "string list" where
  "skipTags = [''html'', ''head'', ''script'', ''noscript'', ''iframe'']"

definition imageExtensions :: "string list" where
  "imageExtensions = [''svg'', ''png'', ''jpg'', ''jpeg'', ''gif'', ''webp'', ''avif'']"

subsection \<open>Module state\<close>

record globals =
  customClassCounter :: nat
  cssVarMap :: "(string \<times> (string \<times> string) list) list"
  imageImportsMap :: "(string \<times> string) list"

definition resetImageImports :: "globals \<Rightarrow> globals" where
  "resetImageImports g = g\<lparr>imageImportsMap := []\<rparr>"

subsection \<open>Helpers\<close>

fun toJSXEventName :: "string \<Rightarrow> string" where
  "toJSXEventName (a # b # c # cs) =
     (if a = CHR ''o'' \<and> b = CHR ''n'' \<and> isLowerAZ c then ''on'' @ toUpperChar c # cs
      else a # b # c # cs)"
| "toJSXEventName attr = attr"

text \<open>One declaration of \<^verbatim>\<open>convertStyle\<close>: the body of its \<^verbatim>\<open>forEach\<close>.\<close>

definition convertDecl ::
  "string list \<times> (string \<times> string) list \<Rightarrow> string \<Rightarrow> string list \<times> (string \<times> string) list" where
  "convertDecl acc decl =
     (case acc of (jsStyles, cssVars) \<Rightarrow>
      (case splitChar (CHR '':'') decl of
         propRaw # valueRaw # _ \<Rightarrow>
           if propRaw = [] \<or> valueRaw = [] then (jsStyles, cssVars)
           else
             let prop = trim propRaw; value = trim valueRaw in
             if prop = [] \<or> value = [] then (jsStyles, cssVars)
             else if startsWith prop ''--'' then (jsStyles, assign prop value cssVars)
             else
               let jsProp = camelCase prop in
               if strIncludes value ''url('' \<and> strIncludes value [CHR 0x27]
               then (jsStyles @ [jsProp @ '': \"'' @ value @ ''\"''], cssVars)
               else (jsStyles @ [jsProp @ '': '' @ [CHR 0x27] @ value @ [CHR 0x27]], cssVars)
       | _ \<Rightarrow> (jsStyles, cssVars)))"

definition convertStyle :: "string \<Rightarrow> string option \<times> (string \<times> string) list" where
  "convertStyle styleString =
     (case foldl convertDecl ([], []) (splitChar (CHR '';'') styleString) of
        (jsStyles, cssVars) \<Rightarrow>
          (if jsStyles \<noteq> [] then Some (''{{ '' @ join '', '' jsStyles @ '' }}'') else None,
           cssVars))"

definition isBooleanValue :: "string \<Rightarrow> bool" where
  "isBooleanValue value =
     (let lower = toLowerCase value in lower = ''true'' \<or> lower = ''false'' \<or> lower = [])"

text \<open>\<^verbatim>\<open>/\.(svg|png|jpg|jpeg|gif|webp|avif)$/i\<close>: the test, and the removal of the match.\<close>

definition hasImageExt :: "string \<Rightarrow> bool" where
  "hasImageExt s = list_ex (\<lambda>e. endsWith (toLowerCase s) (CHR ''.'' # e)) imageExtensions"

definition stripImageExt :: "string \<Rightarrow> string" where
  "stripImageExt s =
     (case find (\<lambda>e. endsWith (toLowerCase s) (CHR ''.'' # e)) imageExtensions of
        Some e \<Rightarrow> take (length s - (length e + 1)) s
      | None \<Rightarrow> s)"

fun capitalizeLower :: "string \<Rightarrow> string" where
  "capitalizeLower [] = []"
| "capitalizeLower (c # cs) = toUpperChar c # toLowerCase cs"

definition generateImageImportName :: "string \<Rightarrow> string" where
  "generateImageImportName filename =
     (let baseName = stripImageExt filename in
      case splitChar (CHR ''_'') baseName of
        [] \<Rightarrow> []
      | part # parts \<Rightarrow> concat (toLowerCase part # map capitalizeLower parts))"

definition fixHtmlImagePath :: "(string \<Rightarrow> string option) \<Rightarrow> globals \<Rightarrow> string \<Rightarrow> string \<times> globals" where
  "fixHtmlImagePath sanitizedFilenameMap g src =
     (if src = [] then (src, g)
      else if startsWith src ''data:'' \<or> startsWith src ''http://'' \<or> startsWith src ''https://''
      then (src, g)
      else if truthy (sanitizedFilenameMap src) \<or>
              (startsWith src ''/'' \<and> truthy (sanitizedFilenameMap (drop 1 src)))
      then
        (case (if truthy (sanitizedFilenameMap src) then sanitizedFilenameMap src
               else sanitizedFilenameMap (drop 1 src)) of
           None \<Rightarrow> (src, g)
         | Some sanitizedFilename \<Rightarrow>
             if hasImageExt sanitizedFilename then
               let importName = generateImageImportName sanitizedFilename in
               (''{'' @ importName @ ''}'',
                g\<lparr>imageImportsMap := assign sanitizedFilename importName (imageImportsMap g)\<rparr>)
             else (''\"./images-flat/'' @ sanitizedFilename @ ''\"'', g))
      else
        let filename =
          (if startsWith src ''/'' then last (splitChar (CHR ''/'') src)
           else if strIncludes src ''images-flat/'' then last (splitStr ''images-flat/'' src)
           else last (splitChar (CHR ''/'') src))
        in
        if filename \<noteq> [] \<and> hasImageExt filename then
          let importName = generateImageImportName filename in
          (''{'' @ importName @ ''}'',
           g\<lparr>imageImportsMap := assign filename importName (imageImportsMap g)\<rparr>)
        else (src, g))"

definition escapeJSXText :: "string \<Rightarrow> string" where
  "escapeJSXText text =
     replaceAllChar (CHR ''>'') ''&gt;''
       (replaceAllChar (CHR ''<'') ''&lt;'' (replaceAllChar (CHR ''&'') ''&amp;'' text))"

definition getImageImports :: "globals \<Rightarrow> string" where
  "getImageImports g =
     (if imageImportsMap g = [] then []
      else join [CHR 0x0A]
        (map (\<lambda>(filename, importName).
                ''import '' @ importName @ '' from '' @ [CHR 0x27] @ ''./images-flat/'' @ filename
                  @ [CHR 0x27] @ '';'')
           (imageImportsMap g)))"

subsection \<open>convertAttributes\<close>

text \<open>
  The name under which an attribute is emitted (\<^verbatim>\<open>jsxKey\<close>): namespaced names first, then
  the rename table, then event handlers, then the generic hyphen rule.
\<close>

definition jsxKeyOf :: "string \<Rightarrow> string" where
  "jsxKeyOf key =
     (let keyLower = toLowerCase key in
      if CHR '':'' \<in> set key then
        (case splitChar (CHR '':'') key of
           namespace # attr # _ \<Rightarrow>
             if toLowerCase namespace = ''xmlns'' then ''xmlns'' @ capitalize attr
             else namespace @ capitalize attr
         | _ \<Rightarrow> key)
      else
        (case attributeRenameLookup keyLower of
           Some renamed \<Rightarrow> renamed
         | None \<Rightarrow>
             if startsWith keyLower ''on'' then toJSXEventName keyLower
             else if CHR ''-'' \<in> set keyLower then camelCase keyLower
             else key))"

text \<open>
  \<^verbatim>\<open>JSON.stringify(JSON.parse(value))\<close> belongs to the runtime. It is the parameter
  \<open>json\<close>: \<open>None\<close> where \<^verbatim>\<open>JSON.parse\<close> throws.

  The body of the loop of \<^verbatim>\<open>convertAttributes\<close>, for one entry. The accumulator holds
  \<^verbatim>\<open>jsx\<close>, \<^verbatim>\<open>existingClass\<close> (\<open>None\<close> for \<^verbatim>\<open>null\<close>) and the module state.
\<close>

definition convertAttribute ::
  "(string \<Rightarrow> string option) \<Rightarrow> (string \<Rightarrow> string option) \<Rightarrow>
   string \<times> string option \<times> globals \<Rightarrow> string \<times> string \<Rightarrow> string \<times> string option \<times> globals" where
  "convertAttribute json sanitizedFilenameMap acc entry =
     (case acc of (jsx, existingClass, g) \<Rightarrow>
      (case entry of (key, value) \<Rightarrow>
       let keyLower = toLowerCase key in
       if value = [] \<or> value = ''{}'' \<or> value = ''[]'' \<or> value = ''null''
       then (jsx, existingClass, g)
       else if keyLower = ''class'' \<or> keyLower = ''classname''
       then (jsx, Some (trim value), g)
       else if keyLower = ''style'' then
         (case convertStyle value of (styleString, cssVars) \<Rightarrow>
          let jsx1 = (case styleString of None \<Rightarrow> jsx | Some st \<Rightarrow> jsx @ '' style='' @ st) in
          if cssVars \<noteq> [] then
            let n = customClassCounter g + 1;
                customClass = ''custom-var-'' @ showNat n;
                g1 = g\<lparr>customClassCounter := n,
                       cssVarMap := assign customClass cssVars (cssVarMap g)\<rparr>
            in (jsx1,
                Some (case existingClass of
                        Some c \<Rightarrow> if c \<noteq> [] then c @ '' '' @ customClass else customClass
                      | None \<Rightarrow> customClass),
                g1)
          else (jsx1, existingClass, g))
       else
         let jsxKey = jsxKeyOf key in
         if keyLower = ''data-props'' \<or> startsWith keyLower ''data-'' then
           (jsx @ '' '' @ jsxKey @ ''=\"''
              @ escapeQuotes (case json value of Some j \<Rightarrow> j | None \<Rightarrow> value) @ ''\"'',
            existingClass, g)
         else
           (case (if keyLower = ''src'' then fixHtmlImagePath sanitizedFilenameMap g value
                  else (value, g)) of
              (attributeValue, g1) \<Rightarrow>
                if startsWith attributeValue ''{'' \<and> endsWith attributeValue ''}''
                then (jsx @ '' '' @ jsxKey @ ''='' @ attributeValue, existingClass, g1)
                else if keyLower \<in> set booleanAttributes then
                  (if value = [] \<or> value = keyLower
                   then (jsx @ '' '' @ jsxKey @ ''={true}'', existingClass, g1)
                   else if value = ''false''
                   then (jsx @ '' '' @ jsxKey @ ''={false}'', existingClass, g1)
                   else if isBooleanValue value
                   then (jsx @ '' '' @ jsxKey @ ''={'' @ toLowerCase value @ ''}'', existingClass, g1)
                   else (jsx @ '' '' @ jsxKey @ ''=\"'' @ attributeValue @ ''\"'', existingClass, g1))
                else
                  (jsx @ '' '' @ jsxKey @ ''=\"'' @ escapeQuotes attributeValue @ ''\"'',
                   existingClass, g1))))"

definition convertAttributes ::
  "(string \<Rightarrow> string option) \<Rightarrow> (string \<Rightarrow> string option) \<Rightarrow>
   globals \<Rightarrow> (string \<times> string) list \<Rightarrow> string \<times> globals" where
  "convertAttributes json sanitizedFilenameMap g attrs =
     (case foldl (convertAttribute json sanitizedFilenameMap) ([], None, g) attrs of
        (jsx, existingClass, g1) \<Rightarrow>
          (case existingClass of
             Some c \<Rightarrow> if c \<noteq> [] then (jsx @ '' className=\"'' @ c @ ''\"'', g1) else (jsx, g1)
           | None \<Rightarrow> (jsx, g1)))"

text \<open>\<^verbatim>\<open>generateCSSFromVars\<close>: the CSS rule blocks of the custom-property table.\<close>

definition generateCSSFromVars :: "(string \<times> (string \<times> string) list) list \<Rightarrow> string" where
  "generateCSSFromVars cssVars =
     join [CHR 0x0A, CHR 0x0A]
       (map (\<lambda>(className, vars).
               ''.'' @ className @ '' {'' @ [CHR 0x0A]
                 @ join [CHR 0x0A] (map (\<lambda>(k, v). ''  '' @ k @ '': '' @ v @ '';'') vars)
                 @ [CHR 0x0A] @ ''}'')
          cssVars)"

subsection \<open>The parse context and the handlers\<close>

datatype event =
    OpenTag string "(string \<times> string) list"
  | Text string
  | CloseTag string
  | Comment

text \<open>The local variables of \<^verbatim>\<open>convertHTMLtoJSX\<close>; the head of \<open>stack\<close> is its top;
  \<open>outputJsx\<close> is the variable \<^verbatim>\<open>output\<close>.\<close>

record parseContext =
  outputJsx :: string
  stack :: "(string \<times> bool) list"
  inBodyTag :: bool
  skipTag :: bool
  currentSkipTag :: "string option"
  depth :: int
  bodyTagFound :: bool
  outputBeforeBodyTag :: string
  bodyAttributes :: "(string \<times> string) list option"

definition initialContext :: parseContext where
  "initialContext =
     \<lparr>outputJsx = [], stack = [], inBodyTag = False, skipTag = False, currentSkipTag = None,
      depth = 0, bodyTagFound = False, outputBeforeBodyTag = [], bodyAttributes = None\<rparr>"

text \<open>
  \<^verbatim>\<open>name.toLowerCase().replace(/^.*?:/, '')\<close>: the name after its first colon, unless a
  line terminator stands before that colon (the dot of a regular expression does not
  match one).
\<close>

definition stripNamespace :: "string \<Rightarrow> string" where
  "stripNamespace s =
     (let p = takeWhile (\<lambda>c. c \<noteq> CHR '':'') s in
      if length p = length s then s
      else if list_ex (\<lambda>c. c = CHR 0x0A \<or> c = CHR 0x0D) p then s
      else drop (length p + 1) s)"

definition tagNameOf :: "string \<Rightarrow> string" where
  "tagNameOf name = stripNamespace (toLowerCase name)"

definition onopentag ::
  "(string \<Rightarrow> string option) \<Rightarrow> (string \<Rightarrow> string option) \<Rightarrow>
   parseContext \<times> globals \<Rightarrow> string \<Rightarrow> (string \<times> string) list \<Rightarrow> parseContext \<times> globals" where
  "onopentag json sanitizedFilenameMap st name attributes0 =
     (case st of (ctx, g0) \<Rightarrow>
      let tagName = tagNameOf name in
      (case (case map_of attributes0 ''src'' of
               Some src \<Rightarrow>
                 if tagName = ''img'' \<and> src \<noteq> [] then
                   (case fixHtmlImagePath sanitizedFilenameMap g0 src of
                      (fixed, g1) \<Rightarrow> (assign ''src'' fixed attributes0, g1))
                 else (attributes0, g0)
             | None \<Rightarrow> (attributes0, g0)) of
         (attributes, g) \<Rightarrow>
           if tagName \<in> set skipTags then
             (ctx\<lparr>skipTag := True, currentSkipTag := Some tagName, depth := 1\<rparr>, g)
           else if skipTag ctx then (ctx\<lparr>depth := depth ctx + 1\<rparr>, g)
           else if tagName = ''body'' then
             (ctx\<lparr>inBodyTag := True, bodyTagFound := True, bodyAttributes := Some attributes\<rparr>, g)
           else if tagName = ''style'' then
             (ctx\<lparr>skipTag := True, currentSkipTag := Some tagName, depth := 1\<rparr>, g)
           else
             let isSelfClosing = (tagName \<in> set selfClosingTags) in
             (case convertAttributes json sanitizedFilenameMap g attributes of
                (attrs, g2) \<Rightarrow>
                  let tag = ''<'' @ tagName @ attrs @ (if isSelfClosing then '' />'' else ''>'') in
                  if \<not> inBodyTag ctx
                  then (ctx\<lparr>outputBeforeBodyTag := outputBeforeBodyTag ctx @ tag\<rparr>, g2)
                  else (ctx\<lparr>outputJsx := outputJsx ctx @ tag,
                            stack := (tagName, isSelfClosing) # stack ctx\<rparr>, g2))))"

definition ontext :: "parseContext \<Rightarrow> string \<Rightarrow> parseContext" where
  "ontext ctx text =
     (if inBodyTag ctx \<and> \<not> skipTag ctx \<and> trim text \<noteq> []
      then ctx\<lparr>outputJsx := outputJsx ctx @ escapeJSXText text\<rparr>
      else if \<not> inBodyTag ctx \<and> \<not> skipTag ctx \<and> trim text \<noteq> []
      then ctx\<lparr>outputBeforeBodyTag := outputBeforeBodyTag ctx @ escapeJSXText text\<rparr>
      else ctx)"

definition onclosetag :: "parseContext \<Rightarrow> string \<Rightarrow> parseContext" where
  "onclosetag ctx tagname =
     (let tag = tagNameOf tagname in
      if skipTag ctx \<and> Some tag = currentSkipTag ctx then
        (let d = depth ctx - 1 in
         if d = 0 then ctx\<lparr>depth := d, skipTag := False, currentSkipTag := None\<rparr>
         else ctx\<lparr>depth := d\<rparr>)
      else if skipTag ctx then ctx\<lparr>depth := depth ctx - 1\<rparr>
      else if tag = ''body'' then ctx\<lparr>inBodyTag := False\<rparr>
      else if \<not> inBodyTag ctx
      then ctx\<lparr>outputBeforeBodyTag := outputBeforeBodyTag ctx @ ''</'' @ tag @ ''>''\<rparr>
      else
        (case stack ctx of
           [] \<Rightarrow> ctx
         | item # rest \<Rightarrow>
             if snd item then ctx\<lparr>stack := rest\<rparr>
             else ctx\<lparr>stack := rest, outputJsx := outputJsx ctx @ ''</'' @ tag @ ''>''\<rparr>))"

text \<open>One event of the parser, routed to its handler; comments are ignored.\<close>

fun handleEvent ::
  "(string \<Rightarrow> string option) \<Rightarrow> (string \<Rightarrow> string option) \<Rightarrow>
   parseContext \<times> globals \<Rightarrow> event \<Rightarrow> parseContext \<times> globals" where
  "handleEvent json sfm st (OpenTag name attributes) = onopentag json sfm st name attributes"
| "handleEvent json sfm (ctx, g) (Text text) = (ontext ctx text, g)"
| "handleEvent json sfm (ctx, g) (CloseTag tagname) = (onclosetag ctx tagname, g)"
| "handleEvent json sfm st Comment = st"

text \<open>The loop that closes what is left on the stack at the end of the stream.\<close>

fun closeUnclosed :: "(string \<times> bool) list \<Rightarrow> string" where
  "closeUnclosed [] = []"
| "closeUnclosed (item # rest) =
     (if fst item \<noteq> ''body'' \<and> fst item \<noteq> ''html''
      then ''</'' @ fst item @ ''>'' @ closeUnclosed rest
      else closeUnclosed rest)"

subsection \<open>The post-pass over the output string\<close>

text \<open>
  Four \<^verbatim>\<open>replace\<close> calls with global regular expressions. Each is a scan from the left:
  where the expression matches, the match is replaced and the scan goes on behind it,
  otherwise one character is copied. A matcher returns the captured groups and the
  length of the match.

  \<^verbatim>\<open>/on([a-z]+)="([^"]*)"/gi\<close>
\<close>

definition matchOnHandler :: "string \<Rightarrow> (string \<times> string \<times> nat) option" where
  "matchOnHandler s =
     (if toLowerCase (take 2 s) = ''on'' then
        let r = drop 2 s; event = takeWhile isAlpha r; r1 = dropWhile isAlpha r in
        if event \<noteq> [] \<and> take 2 r1 = ''=\"'' then
          let r2 = drop 2 r1;
              handler = takeWhile (\<lambda>c. c \<noteq> CHR 0x22) r2
          in if dropWhile (\<lambda>c. c \<noteq> CHR 0x22) r2 \<noteq> []
             then Some (event, handler, 2 + length event + 2 + length handler + 1)
             else None
        else None
      else None)"

fun replaceOnHandlers :: "string \<Rightarrow> string" where
  "replaceOnHandlers [] = []"
| "replaceOnHandlers (c # cs) =
     (case matchOnHandler (c # cs) of
        Some (event, handler, n) \<Rightarrow>
          ''on'' @ capitalize event @ ''={() => { '' @ handler @ '' }}''
            @ replaceOnHandlers (drop (n - 1) cs)
      | None \<Rightarrow> c # replaceOnHandlers cs)"

text \<open>
  \<^verbatim>\<open>/\s([a-z-]+)-([a-z-]+)="([^"]*)"/gi\<close>, matched behind the white-space character. The
  two groups and the hyphen between them fill the whole run of letters and hyphens in
  front of \<^verbatim>\<open>="\<close>; the first group is greedy, so the hyphen is the last one that leaves
  both groups non-empty.
\<close>

definition isNameChar :: "char \<Rightarrow> bool" where
  "isNameChar c = (isAlpha c \<or> c = CHR ''-'')"

definition matchHyphenAttr :: "string \<Rightarrow> (string \<times> string \<times> string \<times> nat) option" where
  "matchHyphenAttr r =
     (let run = takeWhile isNameChar r; r1 = dropWhile isNameChar r in
      if take 2 r1 = ''=\"'' then
        let r2 = drop 2 r1;
            value = takeWhile (\<lambda>c. c \<noteq> CHR 0x22) r2
        in if dropWhile (\<lambda>c. c \<noteq> CHR 0x22) r2 \<noteq> [] then
             (case find (\<lambda>p. run ! p = CHR ''-'') (rev [1 ..< length run - 1]) of
                Some p \<Rightarrow>
                  Some (take p run, drop (p + 1) run, value, length run + 2 + length value + 1)
              | None \<Rightarrow> None)
           else None
      else None)"

text \<open>
  The callback of this replacement returns the variable \<^verbatim>\<open>match\<close> for the prefix
  \<^verbatim>\<open>data\<close>. The module declares no such variable, so reading it throws.
\<close>

datatype error = ReferenceError

fun replaceHyphenAttrs :: "string \<Rightarrow> error + string" where
  "replaceHyphenAttrs [] = Inr []"
| "replaceHyphenAttrs (c # cs) =
     (case (if isSpace c then matchHyphenAttr cs else None) of
        Some (prefix, suffix, value, n) \<Rightarrow>
          if prefix = ''data'' then Inl ReferenceError
          else
            (case replaceHyphenAttrs (drop n cs) of
               Inl e \<Rightarrow> Inl e
             | Inr rest \<Rightarrow>
                 Inr ('' '' @ prefix @ capitalize suffix @ ''=\"'' @ value @ ''\"'' @ rest))
      | None \<Rightarrow>
          (case replaceHyphenAttrs cs of
             Inl e \<Rightarrow> Inl e
           | Inr rest \<Rightarrow> Inr (c # rest)))"

text \<open>\<^verbatim>\<open>/\sclass="/g\<close>\<close>

fun replaceClassAttrs :: "string \<Rightarrow> string" where
  "replaceClassAttrs [] = []"
| "replaceClassAttrs (c # cs) =
     (if isSpace c \<and> take 7 cs = ''class=\"''
      then '' className=\"'' @ replaceClassAttrs (drop 7 cs)
      else c # replaceClassAttrs cs)"

text \<open>
  \<^verbatim>\<open>\s(disabled|checked|...)="(true|false)"\<close> with the flags \<^verbatim>\<open>gi\<close>, matched behind the
  white-space character: the first alternative after which the rest matches.
\<close>

definition matchBooleanValue :: "string \<Rightarrow> string option" where
  "matchBooleanValue r =
     (case find (\<lambda>v. toLowerCase (take (length v) r) = v \<and> take 1 (drop (length v) r) = ''\"'')
             [''true'', ''false''] of
        Some v \<Rightarrow> Some (take (length v) r)
      | None \<Rightarrow> None)"

definition matchBooleanAttr :: "string \<Rightarrow> (string \<times> string \<times> nat) option" where
  "matchBooleanAttr r =
     (case find (\<lambda>a. toLowerCase (take (length a) r) = a \<and> take 2 (drop (length a) r) = ''=\"''
                     \<and> matchBooleanValue (drop (length a + 2) r) \<noteq> None)
             booleanAttributes of
        Some a \<Rightarrow>
          (case matchBooleanValue (drop (length a + 2) r) of
             Some value \<Rightarrow> Some (take (length a) r, value, length a + 2 + length value + 1)
           | None \<Rightarrow> None)
      | None \<Rightarrow> None)"

fun replaceBooleanAttrs :: "string \<Rightarrow> string" where
  "replaceBooleanAttrs [] = []"
| "replaceBooleanAttrs (c # cs) =
     (case (if isSpace c then matchBooleanAttr cs else None) of
        Some (attr, value, n) \<Rightarrow>
          (let jsxAttr =
             (case attributeRenameLookup (toLowerCase attr) of
                Some renamed \<Rightarrow> renamed
              | None \<Rightarrow> if CHR ''-'' \<in> set attr then camelCase attr else attr)
           in '' '' @ jsxAttr @ ''={'' @ toLowerCase value @ ''}'' @ replaceBooleanAttrs (drop n cs))
      | None \<Rightarrow> c # replaceBooleanAttrs cs)"

definition postPass :: "string \<Rightarrow> error + string" where
  "postPass out =
     (case replaceHyphenAttrs (replaceOnHandlers out) of
        Inl e \<Rightarrow> Inl e
      | Inr s \<Rightarrow> Inr (replaceBooleanAttrs (replaceClassAttrs s)))"

subsection \<open>convertHTMLtoJSX\<close>

text \<open>
  The conversion of a document, given as the events of its parse. The result is the
  returned string, or the exception that ends the call, together with the module state
  the call leaves behind.
\<close>

definition runEvents ::
  "(string \<Rightarrow> string option) \<Rightarrow> (string \<Rightarrow> string option) \<Rightarrow>
   globals \<Rightarrow> event list \<Rightarrow> parseContext \<times> globals" where
  "runEvents json sanitizedFilenameMap g events =
     foldl (handleEvent json sanitizedFilenameMap) (initialContext, resetImageImports g) events"

definition convertHTMLtoJSX ::
  "(string \<Rightarrow> string option) \<Rightarrow> (string \<Rightarrow> string option) \<Rightarrow>
   globals \<Rightarrow> event list \<Rightarrow> (error + string) \<times> globals" where
  "convertHTMLtoJSX json sanitizedFilenameMap g events =
     (case runEvents json sanitizedFilenameMap g events of
        (ctx, g1) \<Rightarrow>
          let out1 = outputJsx ctx @ closeUnclosed (stack ctx);
              out2 = (if \<not> bodyTagFound ctx \<and> outputBeforeBodyTag ctx \<noteq> []
                      then outputBeforeBodyTag ctx else out1)
          in
          (case postPass out2 of
             Inl e \<Rightarrow> (Inl e, g1)
           | Inr out3 \<Rightarrow>
               (case bodyAttributes ctx of
                  Some attrs \<Rightarrow>
                    (case convertAttributes json sanitizedFilenameMap g1 attrs of
                       (wrapperAttributes, g2) \<Rightarrow>
                         (Inr (''<div'' @ wrapperAttributes @ ''>'' @ out3 @ ''</div>''), g2))
                | None \<Rightarrow> (Inr (''<>'' @ out3 @ ''</>''), g1))))"

text \<open>The module state when the module has been loaded and nothing converted yet.\<close>

definition initialGlobals :: globals where
  "initialGlobals = \<lparr>customClassCounter = 0, cssVarMap = [], imageImportsMap = []\<rparr>"

text \<open>
  What the claims say of the image import table: no file name twice, and every entry
  holds the identifier generated from its file name.
\<close>

definition importTableOk :: "(string \<times> string) list \<Rightarrow> bool" where
  "importTableOk t =
     (distinct (map fst t) \<and> list_all (\<lambda>(f, i). i = generateImageImportName f) t)"

text \<open>
  The sources that \<^verbatim>\<open>fixHtmlImagePath\<close> turns into an import of the file \<open>fn\<close>: not
  empty, no \<^verbatim>\<open>data:\<close> or \<^verbatim>\<open>http(s)\<close> URL, mapped (as written, or without the leading slash)
  to a file name with an image extension. The last two conditions keep the second pass
  over the rewritten attribute from changing it: the identifier is not empty, and the
  identifier in braces is not itself a key of the map.
\<close>

definition importable :: "(string \<Rightarrow> string option) \<Rightarrow> string \<Rightarrow> string \<Rightarrow> bool" where
  "importable sfm src fn =
     (src \<noteq> [] \<and> \<not> startsWith src ''data:'' \<and> \<not> startsWith src ''http://''
        \<and> \<not> startsWith src ''https://''
        \<and> ((truthy (sfm src) \<and> sfm src = Some fn) \<or>
            (\<not> truthy (sfm src) \<and> startsWith src ''/'' \<and> truthy (sfm (drop 1 src))
               \<and> sfm (drop 1 src) = Some fn))
        \<and> hasImageExt fn \<and> generateImageImportName fn \<noteq> []
        \<and> \<not> truthy (sfm (''{'' @ generateImageImportName fn @ ''}'')))"

section \<open>Properties\<close>

subsection \<open>Runs of the handlers\<close>

lemma runEvents_snoc:
  "runEvents json sfm g (evs @ [e]) = handleEvent json sfm (runEvents json sfm g evs) e"
  by (simp add: runEvents_def)

subsection \<open>Discarded subtrees\<close>

text \<open>
  C1. The claim: nothing that stands inside a \<^verbatim>\<open>script\<close>, \<^verbatim>\<open>style\<close>, \<^verbatim>\<open>head\<close>, \<^verbatim>\<open>html\<close> or
  \<^verbatim>\<open>noscript\<close> element reaches the output, and while the converter is discarding every
  opening tag increments the depth. The code tests membership in \<^verbatim>\<open>skipTags\<close> before it
  tests the discarding flag, so a \<^verbatim>\<open>script\<close> inside a \<^verbatim>\<open>head\<close> sets the depth back to 1
  and its closing tag ends the discarding while the \<^verbatim>\<open>head\<close> is still open. For the
  document \<^verbatim>\<open><head><script></script><title>T</title></head>\<close> the depth after the two
  opening tags is 1, the flag is clear after \<^verbatim>\<open></script>\<close>, and the title, which stands
  inside the head, is returned.
\<close>

theorem C1_nested_discard_leaks:
  "depth (fst (runEvents json sfm g [OpenTag ''head'' [], OpenTag ''script'' []])) = 1
   \<and> skipTag (fst (runEvents json sfm g [OpenTag ''head'' [], OpenTag ''script'' []]))
   \<and> \<not> skipTag (fst (runEvents json sfm g
          [OpenTag ''head'' [], OpenTag ''script'' [], CloseTag ''script'']))
   \<and> fst (convertHTMLtoJSX json sfm g
          [OpenTag ''head'' [], OpenTag ''script'' [], CloseTag ''script'',
           OpenTag ''title'' [], Text ''T'', CloseTag ''title'', CloseTag ''head''])
       = Inr ''<><title>T</title></head></>''"
  by code_simp

subsection \<open>Exceptions\<close>

text \<open>
  C2. The claim: the conversion of a string never throws. The callback of the second
  replacement of the post-pass reads the undeclared variable \<^verbatim>\<open>match\<close> when the prefix
  of a hyphenated attribute is \<^verbatim>\<open>data\<close>. Text nodes are copied to the output with only
  \<^verbatim>\<open>&\<close>, \<^verbatim>\<open><\<close> and \<^verbatim>\<open>>\<close> escaped, so the document \<^verbatim>\<open><p>set data-x="1" here</p>\<close>
  brings such a match into the output and the call ends with a ReferenceError.
\<close>

theorem C2_data_text_throws:
  "fst (convertHTMLtoJSX json sfm g
          [OpenTag ''p'' [], Text ''set data-x=\"1\" here'', CloseTag ''p''])
     = Inl ReferenceError"
  by code_simp

subsection \<open>Boolean attributes\<close>

text \<open>
  C3, as amended. For an attribute of the boolean set (named in lower case, as the parser
  delivers it) whose value is not empty, is none of \<^verbatim>\<open>{}\<close>, \<^verbatim>\<open>[]\<close>, \<^verbatim>\<open>null\<close> and is not
  wrapped in braces: a value equal to the attribute's name, or \<^verbatim>\<open>true\<close> in any letter
  case, is emitted as \<^verbatim>\<open>{true}\<close>; \<^verbatim>\<open>false\<close> in any letter case as \<^verbatim>\<open>{false}\<close>; any other
  value as a quoted string. The name is the renamed one (\<^verbatim>\<open>readonly\<close> becomes
  \<^verbatim>\<open>readOnly\<close>). This holds for each entry of the attribute loop, whatever has been
  emitted before it.
\<close>

theorem C3_boolean_attribute:
  assumes "key \<in> set booleanAttributes"
      and "value \<noteq> []" "value \<noteq> ''{}''" "value \<noteq> ''[]''" "value \<noteq> ''null''"
      and "\<not> (startsWith value ''{'' \<and> endsWith value ''}'')"
  shows "convertAttribute json sfm (jsx, existingClass, g) (key, value) =
     (jsx @ '' '' @ jsxKeyOf key @
        (if value = key \<or> toLowerCase value = ''true'' then ''={true}''
         else if toLowerCase value = ''false'' then ''={false}''
         else ''=\"'' @ value @ ''\"''),
      existingClass, g)"
proof -
  have k: "toLowerCase key = key" "key \<noteq> ''class''" "key \<noteq> ''classname''" "key \<noteq> ''style''"
    "key \<noteq> ''data-props''" "\<not> startsWith key ''data-''" "key \<noteq> ''src''"
    using assms(1)
    by (auto simp: booleanAttributes_def toLowerCase_def toLowerChar_def upperAZ_def
          lowerAZ_def startsWith_def)
  have f: "value = ''false'' \<Longrightarrow> toLowerCase value = ''false''"
    by (simp add: toLowerCase_def toLowerChar_def upperAZ_def lowerAZ_def)
  show ?thesis
    using assms k f
    by (auto simp: convertAttribute_def Let_def isBooleanValue_def toLowerCase_def)
qed

text \<open>The theorem at \<^verbatim>\<open>disabled="false"\<close>, the case the claim names.\<close>

theorem C3_boolean_attribute_witness:
  "''disabled'' \<in> set booleanAttributes
   \<and> convertAttribute (\<lambda>_. None) (\<lambda>_. None) ([], None, initialGlobals) (''disabled'', ''false'')
       = ('' disabled={false}'', None, initialGlobals)"
proof -
  have h1: "''disabled'' \<in> set booleanAttributes" by code_simp
  have h2: "''false'' \<noteq> []" "''false'' \<noteq> ''{}''" "''false'' \<noteq> ''[]''" "''false'' \<noteq> ''null''"
    by simp_all
  have h3: "\<not> (startsWith ''false'' ''{'' \<and> endsWith ''false'' ''}'')" by code_simp
  have j: "jsxKeyOf ''disabled'' = ''disabled''" by code_simp
  have l: "toLowerCase ''false'' = ''false''" by code_simp
  from C3_boolean_attribute [OF h1 h2 h3, of "\<lambda>_. None" "\<lambda>_. None" "[]" None initialGlobals]
  show ?thesis by (simp add: h1 j l)
qed

text \<open>
  The claim as stated fails where the code, by its guards, does something else: the value
  \<^verbatim>\<open>null\<close> is skipped with the attribute, and a value in braces is emitted unquoted.
\<close>

theorem C3_counterexample:
  "fst (convertAttributes (\<lambda>_. None) (\<lambda>_. None) initialGlobals [(''disabled'', ''null'')]) = []
   \<and> fst (convertAttributes (\<lambda>_. None) (\<lambda>_. None) initialGlobals [(''disabled'', ''{x}'')])
       = '' disabled={x}''"
  by code_simp

text \<open>
  The first guard of the loop also skips the empty value, which is what the parser
  delivers for \<^verbatim>\<open><button disabled>\<close>: the test for the empty string in the boolean
  branch is never reached.
\<close>

lemma boolean_attribute_without_value:
  "convertAttributes json sfm g [(''disabled'', [])] = ([], g)"
  by code_simp

subsection \<open>Image imports\<close>

text \<open>
  C4, as amended. The image \<^verbatim>\<open><img src="/front/assets/logo-abc.png">\<close> with the map entry
  \<^verbatim>\<open>/front/assets/logo-abc.png\<close> \<open>\<mapsto>\<close> \<^verbatim>\<open>_logo_abc.png\<close> is emitted as the tag
  \<^verbatim>\<open><img src={LogoAbc} />\<close>, and the import serialization is the one line
  \<^verbatim>\<open>import LogoAbc from './images-flat/_logo_abc.png';\<close>. The file name without its
  extension splits at the underscores into an empty first segment, \<^verbatim>\<open>logo\<close> and \<^verbatim>\<open>abc\<close>;
  the first segment is put in lower case and every other one capitalized.
\<close>

theorem C4_logo_import:
  "(\<exists>out. fst (convertHTMLtoJSX json [''/front/assets/logo-abc.png'' \<mapsto> ''_logo_abc.png''] g
               [OpenTag ''img'' [(''src'', ''/front/assets/logo-abc.png'')], CloseTag ''img''])
            = Inr out
          \<and> strIncludes out ''<img src={LogoAbc} />'')
   \<and> getImageImports
        (snd (convertHTMLtoJSX json [''/front/assets/logo-abc.png'' \<mapsto> ''_logo_abc.png''] g
               [OpenTag ''img'' [(''src'', ''/front/assets/logo-abc.png'')], CloseTag ''img'']))
       = ''import LogoAbc from './images-flat/_logo_abc.png';''
   \<and> splitChar (CHR ''_'') (stripImageExt ''_logo_abc.png'') = [[], ''logo'', ''abc'']
   \<and> generateImageImportName filename =
         (case splitChar (CHR ''_'') (stripImageExt filename) of
            [] \<Rightarrow> []
          | part # parts \<Rightarrow> toLowerCase part @ concat (map capitalizeLower parts))"
proof -
  have a: "fst (convertHTMLtoJSX json [''/front/assets/logo-abc.png'' \<mapsto> ''_logo_abc.png''] g
               [OpenTag ''img'' [(''src'', ''/front/assets/logo-abc.png'')], CloseTag ''img''])
            = Inr ''<><img src={LogoAbc} /></img></>''"
    by code_simp
  have b: "strIncludes ''<><img src={LogoAbc} /></img></>'' ''<img src={LogoAbc} />''"
    by code_simp
  have c: "getImageImports
        (snd (convertHTMLtoJSX json [''/front/assets/logo-abc.png'' \<mapsto> ''_logo_abc.png''] g
               [OpenTag ''img'' [(''src'', ''/front/assets/logo-abc.png'')], CloseTag ''img'']))
       = ''import LogoAbc from './images-flat/_logo_abc.png';''"
    by (code_simp, simp)
  have d: "splitChar (CHR ''_'') (stripImageExt ''_logo_abc.png'') = [[], ''logo'', ''abc'']"
    by code_simp
  have e: "generateImageImportName filename =
         (case splitChar (CHR ''_'') (stripImageExt filename) of
            [] \<Rightarrow> []
          | part # parts \<Rightarrow> toLowerCase part @ concat (map capitalizeLower parts))"
    by (simp add: generateImageImportName_def Let_def split: list.splits)
  from a b c d e show ?thesis by blast
qed

text \<open>
  The identifier of the claim, \<^verbatim>\<open>logoAbc\<close>, occurs neither in the returned string nor in
  the import line.
\<close>

theorem C4_counterexample:
  "fst (convertHTMLtoJSX (\<lambda>_. None) [''/front/assets/logo-abc.png'' \<mapsto> ''_logo_abc.png'']
          initialGlobals
          [OpenTag ''img'' [(''src'', ''/front/assets/logo-abc.png'')], CloseTag ''img''])
     = Inr ''<><img src={LogoAbc} /></img></>''
   \<and> \<not> strIncludes ''<><img src={LogoAbc} /></img></>'' ''<img src={logoAbc} />''
   \<and> getImageImports
        (snd (convertHTMLtoJSX (\<lambda>_. None) [''/front/assets/logo-abc.png'' \<mapsto> ''_logo_abc.png'']
               initialGlobals
               [OpenTag ''img'' [(''src'', ''/front/assets/logo-abc.png'')], CloseTag ''img'']))
       \<noteq> ''import logoAbc from './images-flat/_logo_abc.png';''"
  by code_simp

subsection \<open>The wrapper element\<close>

lemma handleEvent_bodyAttributes:
  "bodyAttributes (fst (handleEvent json sfm st e)) =
     (case e of
        OpenTag name attrs \<Rightarrow>
          if tagNameOf name = ''body'' \<and> \<not> skipTag (fst st) then Some attrs
          else bodyAttributes (fst st)
      | _ \<Rightarrow> bodyAttributes (fst st))"
  by (cases st; cases e)
     (auto simp: onopentag_def ontext_def onclosetag_def Let_def skipTags_def
           split: option.splits prod.splits list.splits)

lemma snoc_decomp:
  "(evs @ [e] = pre @ x # post) =
     ((post = [] \<and> pre = evs \<and> x = e) \<or> (\<exists>post'. post = post' @ [e] \<and> evs = pre @ x # post'))"
  by (cases post rule: rev_cases) auto

lemma bodyAttributes_None:
  "bodyAttributes (fst (runEvents json sfm g evs)) = None \<Longrightarrow>
     \<not> (\<exists>pre name attrs post. evs = pre @ OpenTag name attrs # post \<and> tagNameOf name = ''body''
           \<and> \<not> skipTag (fst (runEvents json sfm g pre)))"
proof (induction evs rule: rev_induct)
  case Nil
  then show ?case by simp
next
  case (snoc e evs)
  from snoc.prems have n: "bodyAttributes (fst (runEvents json sfm g evs)) = None"
    by (auto simp: runEvents_snoc handleEvent_bodyAttributes split: event.splits if_splits)
  from snoc.prems have e: "\<not> (\<exists>name attrs. e = OpenTag name attrs \<and> tagNameOf name = ''body''
      \<and> \<not> skipTag (fst (runEvents json sfm g evs)))"
    by (auto simp: runEvents_snoc handleEvent_bodyAttributes split: event.splits if_splits)
  from snoc.IH [OF n] e show ?case
    by (auto simp: snoc_decomp)
qed

lemma bodyAttributes_Some:
  "bodyAttributes (fst (runEvents json sfm g evs)) = Some attrs \<Longrightarrow>
     \<exists>pre name post. evs = pre @ OpenTag name attrs # post \<and> tagNameOf name = ''body''
           \<and> \<not> skipTag (fst (runEvents json sfm g pre))"
proof (induction evs rule: rev_induct)
  case Nil
  then show ?case by (simp add: runEvents_def initialContext_def)
next
  case (snoc e evs)
  show ?case
  proof (cases "\<exists>name. e = OpenTag name attrs \<and> tagNameOf name = ''body''
      \<and> \<not> skipTag (fst (runEvents json sfm g evs))")
    case True
    then obtain name where "e = OpenTag name attrs" "tagNameOf name = ''body''"
      "\<not> skipTag (fst (runEvents json sfm g evs))" by blast
    then have "evs @ [e] = evs @ OpenTag name attrs # [] \<and> tagNameOf name = ''body''
           \<and> \<not> skipTag (fst (runEvents json sfm g evs))" by simp
    then show ?thesis by blast
  next
    case False
    with snoc.prems have "bodyAttributes (fst (runEvents json sfm g evs)) = Some attrs"
      by (auto simp: runEvents_snoc handleEvent_bodyAttributes split: event.splits if_splits)
    from snoc.IH [OF this] obtain pre name post where
      "evs = pre @ OpenTag name attrs # post" "tagNameOf name = ''body''"
      "\<not> skipTag (fst (runEvents json sfm g pre))" by blast
    then have "evs @ [e] = pre @ OpenTag name attrs # (post @ [e]) \<and> tagNameOf name = ''body''
           \<and> \<not> skipTag (fst (runEvents json sfm g pre))" by simp
    then show ?thesis by blast
  qed
qed

text \<open>
  C5, as amended. The returned string is a single \<^verbatim>\<open>div\<close> element that carries the
  transformed attributes of a body tag exactly when the document has a body tag that
  opens while the converter is not discarding, whether that tag has attributes or not.
  For every other document the content is wrapped in a fragment.
\<close>

theorem C5_wrapper_iff_body_opened:
  assumes "fst (convertHTMLtoJSX json sfm g evs) = Inr out"
  shows "(\<exists>pre name attrs post. evs = pre @ OpenTag name attrs # post \<and> tagNameOf name = ''body''
            \<and> \<not> skipTag (fst (runEvents json sfm g pre))
            \<and> (\<exists>inner. out = ''<div'' @ fst (convertAttributes json sfm (snd (runEvents json sfm g evs)) attrs)
                   @ ''>'' @ inner @ ''</div>''))
         \<or> ((\<nexists>pre name attrs post. evs = pre @ OpenTag name attrs # post \<and> tagNameOf name = ''body''
            \<and> \<not> skipTag (fst (runEvents json sfm g pre)))
            \<and> (\<exists>inner. out = ''<>'' @ inner @ ''</>''))"
proof (cases "bodyAttributes (fst (runEvents json sfm g evs))")
  case None
  from bodyAttributes_None [OF None] have n: "\<nexists>pre name attrs post. evs = pre @ OpenTag name attrs # post \<and> tagNameOf name = ''body''
            \<and> \<not> skipTag (fst (runEvents json sfm g pre))" .
  from assms None have "\<exists>inner. out = ''<>'' @ inner @ ''</>''"
    by (auto simp: convertHTMLtoJSX_def Let_def split: prod.splits sum.splits)
  with n show ?thesis by blast
next
  case (Some attrs)
  from bodyAttributes_Some [OF Some] obtain pre name post where d:
    "evs = pre @ OpenTag name attrs # post" "tagNameOf name = ''body''"
    "\<not> skipTag (fst (runEvents json sfm g pre))" by blast
  from assms Some have "\<exists>inner. out = ''<div'' @ fst (convertAttributes json sfm (snd (runEvents json sfm g evs)) attrs)
                   @ ''>'' @ inner @ ''</div>''"
    by (auto simp: convertHTMLtoJSX_def Let_def split: prod.splits sum.splits)
  with d show ?thesis by blast
qed

text \<open>The theorem at a body tag that has no attribute.\<close>

theorem C5_wrapper_iff_body_opened_witness:
  "fst (convertHTMLtoJSX (\<lambda>_. None) (\<lambda>_. None) initialGlobals
          [OpenTag ''body'' [], OpenTag ''p'' [], Text ''Hi'', CloseTag ''p'', CloseTag ''body''])
     = Inr ''<div><p>Hi</p></div>''
   \<and> (\<exists>pre name attrs post.
          [OpenTag ''body'' [], OpenTag ''p'' [], Text ''Hi'', CloseTag ''p'', CloseTag ''body'']
            = pre @ OpenTag name attrs # post
          \<and> tagNameOf name = ''body''
          \<and> \<not> skipTag (fst (runEvents (\<lambda>_. None) (\<lambda>_. None) initialGlobals pre)))"
proof -
  have h: "fst (convertHTMLtoJSX (\<lambda>_. None) (\<lambda>_. None) initialGlobals
          [OpenTag ''body'' [], OpenTag ''p'' [], Text ''Hi'', CloseTag ''p'', CloseTag ''body''])
     = Inr ''<div><p>Hi</p></div>''"
    by code_simp
  from C5_wrapper_iff_body_opened [OF h] h show ?thesis by auto
qed

text \<open>A body tag without attributes gets the wrapper element, not a fragment.\<close>

theorem C5_counterexample:
  "fst (convertHTMLtoJSX (\<lambda>_. None) (\<lambda>_. None) initialGlobals
          [OpenTag ''body'' [], OpenTag ''p'' [], Text ''Hi'', CloseTag ''p'', CloseTag ''body''])
     = Inr ''<div><p>Hi</p></div>''
   \<and> fst (convertHTMLtoJSX (\<lambda>_. None) (\<lambda>_. None) initialGlobals
          [OpenTag ''body'' [], OpenTag ''p'' [], Text ''Hi'', CloseTag ''p'', CloseTag ''body''])
     \<noteq> Inr ''<><p>Hi</p></>''"
  by code_simp

subsection \<open>Documents without a body tag\<close>

text \<open>
  C6. The claim: a document without a body tag converts to what the same content
  converts to inside a body, in a fragment. The parser reports a closing tag for a void
  element right after its opening tag. Inside a body the converter pops the entry it
  pushed for the void element and emits nothing; outside a body it keeps no stack and
  emits the closing tag. For \<^verbatim>\<open><p>Hi<br>there</p>\<close> the content comes out as
  \<^verbatim>\<open><p>Hi<br /></br>there</p>\<close> without a body and as \<^verbatim>\<open><p>Hi<br />there</p>\<close> inside one.
\<close>

theorem C6_void_element_without_body:
  "fst (convertHTMLtoJSX json sfm g
          [OpenTag ''p'' [], Text ''Hi'', OpenTag ''br'' [], CloseTag ''br'',
           Text ''there'', CloseTag ''p''])
     = Inr ''<><p>Hi<br /></br>there</p></>''
   \<and> fst (convertHTMLtoJSX json sfm g
          [OpenTag ''body'' [], OpenTag ''p'' [], Text ''Hi'', OpenTag ''br'' [], CloseTag ''br'',
           Text ''there'', CloseTag ''p'', CloseTag ''body''])
     = Inr ''<div><p>Hi<br />there</p></div>''"
  by code_simp

subsection \<open>Custom properties of inline styles\<close>

text \<open>
  C7. The claim: a tag whose style holds a custom property gets a \<^verbatim>\<open>className\<close> with the
  generated \<^verbatim>\<open>custom-var-N\<close> token, after any class it already has. The code merges the
  token into the pending class when it meets the style attribute, and overwrites the
  pending class when it meets a class attribute. For \<^verbatim>\<open>style="--x:1px" class="a b"\<close>, in
  this order, the class is generated and entered into the table, and the emitted
  \<^verbatim>\<open>className\<close> is \<^verbatim>\<open>a b\<close> without the token.
\<close>

theorem C7_class_after_style_loses_token:
  "convertAttributes json sfm g [(''style'', ''--x:1px''), (''class'', ''a b'')]
     = ('' className=\"a b\"'',
        g\<lparr>customClassCounter := customClassCounter g + 1,
          cssVarMap := assign (''custom-var-'' @ showNat (customClassCounter g + 1))
                         [(''--x'', ''1px'')] (cssVarMap g)\<rparr>)"
  by code_simp

text \<open>
  With the class in front of the style, and in the scenario of the specification, the
  token is there.
\<close>

lemma class_before_style_keeps_token:
  "fst (convertAttributes json sfm initialGlobals [(''class'', ''a b''), (''style'', ''--x:1px'')])
     = '' className=\"a b custom-var-1\"''
   \<and> convertHTMLtoJSX json sfm initialGlobals
         [OpenTag ''body'' [(''class'', ''app'')],
          OpenTag ''div'' [(''style'', ''color:red;--x:1px'')], Text ''Hi'', CloseTag ''div'',
          CloseTag ''body'']
       = (Inr ''<div className=\"app\"><div style={{ color: 'red' }} className=\"custom-var-1\">Hi</div></div>'',
          \<lparr>customClassCounter = 1, cssVarMap = [(''custom-var-1'', [(''--x'', ''1px'')])],
             imageImportsMap = []\<rparr>)"
  by code_simp

subsection \<open>The image import table\<close>

lemma assign_keys: "fst ` set (assign k v t) = insert k (fst ` set t)"
proof (induction t)
  case Nil
  then show ?case by simp
next
  case (Cons p t)
  obtain a b where p: "p = (a, b)" by (cases p) auto
  show ?case by (cases "a = k") (simp_all add: p Cons.IH insert_commute)
qed

lemma assign_distinct: "distinct (map fst t) \<Longrightarrow> distinct (map fst (assign k v t))"
proof (induction t)
  case Nil
  then show ?case by simp
next
  case (Cons p t)
  obtain a b where p: "p = (a, b)" by (cases p) auto
  from Cons show ?case using assign_keys [of k v t] by (auto simp: p)
qed

lemma assign_all: "list_all P t \<Longrightarrow> P (k, v) \<Longrightarrow> list_all P (assign k v t)"
  by (induction t) auto

lemma assign_idem: "assign k v (assign k v t) = assign k v t"
  by (induction t) auto

lemma assign_ok:
  "importTableOk t \<Longrightarrow> importTableOk (assign f (generateImageImportName f) t)"
  by (simp add: importTableOk_def assign_distinct assign_all)

lemma fixHtmlImagePath_table:
  "imageImportsMap (snd (fixHtmlImagePath sfm g src)) = imageImportsMap g
   \<or> (\<exists>f. imageImportsMap (snd (fixHtmlImagePath sfm g src))
            = assign f (generateImageImportName f) (imageImportsMap g))"
  unfolding fixHtmlImagePath_def Let_def
  by (auto split: option.splits)

lemma fixHtmlImagePath_ok:
  assumes "importTableOk (imageImportsMap g)"
  shows "importTableOk (imageImportsMap (snd (fixHtmlImagePath sfm g src)))"
proof -
  from fixHtmlImagePath_table [of sfm g src] show ?thesis
  proof
    assume "imageImportsMap (snd (fixHtmlImagePath sfm g src)) = imageImportsMap g"
    with assms show ?thesis by simp
  next
    assume "\<exists>f. imageImportsMap (snd (fixHtmlImagePath sfm g src))
            = assign f (generateImageImportName f) (imageImportsMap g)"
    then obtain f where "imageImportsMap (snd (fixHtmlImagePath sfm g src))
            = assign f (generateImageImportName f) (imageImportsMap g)" ..
    with assign_ok [OF assms, of f] show ?thesis by simp
  qed
qed

lemma convertAttribute_ok:
  assumes "importTableOk (imageImportsMap (snd (snd acc)))"
  shows "importTableOk (imageImportsMap (snd (snd (convertAttribute json sfm acc entry))))"
proof -
  obtain jsx ec g where acc: "acc = (jsx, ec, g)" by (cases acc) auto
  obtain key val where en: "entry = (key, val)" by (cases entry) auto
  from assms acc have g: "importTableOk (imageImportsMap g)" by simp
  show ?thesis
    unfolding acc en convertAttribute_def Let_def
    by (simp add: g fixHtmlImagePath_ok [OF g] case_prod_beta split: option.splits)
qed

lemma foldl_convertAttribute_ok:
  "importTableOk (imageImportsMap (snd (snd acc))) \<Longrightarrow>
     importTableOk (imageImportsMap (snd (snd (foldl (convertAttribute json sfm) acc attrs))))"
  by (induction attrs arbitrary: acc) (simp_all add: convertAttribute_ok)

lemma convertAttributes_ok:
  assumes "importTableOk (imageImportsMap g)"
  shows "importTableOk (imageImportsMap (snd (convertAttributes json sfm g attrs)))"
proof -
  from assms have "importTableOk (imageImportsMap (snd (snd ([] :: string, None :: string option, g))))"
    by simp
  from foldl_convertAttribute_ok [OF this, of json sfm attrs] show ?thesis
    unfolding convertAttributes_def by (simp add: case_prod_beta split: option.splits)
qed

lemma onopentag_ok:
  assumes "importTableOk (imageImportsMap (snd st))"
  shows "importTableOk (imageImportsMap (snd (onopentag json sfm st name attrs)))"
proof -
  obtain ctx g where st: "st = (ctx, g)" by (cases st) auto
  from assms st have g: "importTableOk (imageImportsMap g)" by simp
  show ?thesis
    unfolding st onopentag_def Let_def
    by (simp add: g fixHtmlImagePath_ok [OF g] convertAttributes_ok case_prod_beta
             split: option.splits)
qed

lemma handleEvent_ok:
  "importTableOk (imageImportsMap (snd st)) \<Longrightarrow>
     importTableOk (imageImportsMap (snd (handleEvent json sfm st e)))"
  by (cases st; cases e) (simp_all add: onopentag_ok)


lemma runEvents_ok: "importTableOk (imageImportsMap (snd (runEvents json sfm g evs)))"
proof (induction evs rule: rev_induct)
  case Nil
  then show ?case by (simp add: runEvents_def resetImageImports_def importTableOk_def)
next
  case (snoc e evs)
  then show ?case by (simp add: runEvents_snoc handleEvent_ok)
qed

lemma convertHTMLtoJSX_ok:
  "importTableOk (imageImportsMap (snd (convertHTMLtoJSX json sfm g evs)))"
  unfolding convertHTMLtoJSX_def Let_def
  by (simp add: runEvents_ok convertAttributes_ok case_prod_beta split: sum.splits option.splits)

lemma splitChar_last:
  "splitChar c s \<noteq> [] \<and> (\<exists>pre. s = pre @ last (splitChar c s))
   \<and> (length (splitChar c s) = 1 \<longrightarrow> splitChar c s = [s])"
proof (induction s)
  case Nil
  then show ?case by simp
next
  case (Cons x xs)
  let ?L = "splitChar c xs"
  from Cons have ne: "?L \<noteq> []" and ex: "\<exists>pre. xs = pre @ last ?L"
    and one: "length ?L = 1 \<longrightarrow> ?L = [xs]" by blast+
  from ex obtain pre where pre: "xs = pre @ last ?L" by blast
  have app: "x # xs = (x # pre) @ last ?L" using pre by (metis append_Cons)
  show ?case
  proof (cases "x = c")
    case True
    then have eq: "splitChar c (x # xs) = [] # ?L" by simp
    have "last ([] # ?L) = last ?L" using ne by simp
    with app have "\<exists>pre. x # xs = pre @ last ([] # ?L)" by metis
    moreover have "length ([] # ?L) \<noteq> 1" using ne by simp
    ultimately show ?thesis unfolding eq by blast
  next
    case False
    obtain p ps where l: "?L = p # ps" using ne by (cases ?L) auto
    from False l have eq: "splitChar c (x # xs) = (x # p) # ps" by simp
    show ?thesis
    proof (cases "ps = []")
      case True
      with l one have "p = xs" by simp
      with True have "(x # p) # ps = [x # xs]" by simp
      then show ?thesis unfolding eq by simp
    next
      case ps: False
      have "last ((x # p) # ps) = last ?L" using l ps by simp
      with app have "\<exists>pre. x # xs = pre @ last ((x # p) # ps)" by metis
      moreover have "length ((x # p) # ps) \<noteq> 1" using ps by simp
      ultimately show ?thesis unfolding eq by blast
    qed
  qed
qed

lemma splitStr_last:
  "splitStr sep s \<noteq> [] \<and> (\<exists>pre. s = pre @ last (splitStr sep s))
   \<and> (length (splitStr sep s) = 1 \<longrightarrow> splitStr sep s = [s])"
proof (induction sep s rule: splitStr.induct)
  case (1 sep)
  then show ?case by simp
next
  case (2 sep x xs)
  show ?case
  proof (cases "take (length sep) (x # xs) = sep")
    case True
    let ?L = "splitStr sep (drop (length sep - 1) xs)"
    from True have eq: "splitStr sep (x # xs) = [] # ?L" by simp
    from 2(1) [OF True] have ne: "?L \<noteq> []"
      and ex: "\<exists>pre. drop (length sep - 1) xs = pre @ last ?L" by blast+
    from ex obtain pre where pre: "drop (length sep - 1) xs = pre @ last ?L" by blast
    have "x # xs = (x # take (length sep - 1) xs) @ drop (length sep - 1) xs"
      by (metis append_Cons append_take_drop_id)
    with pre have "x # xs = ((x # take (length sep - 1) xs) @ pre) @ last ?L"
      by (metis append.assoc)
    moreover have "last ([] # ?L) = last ?L" using ne by simp
    ultimately have "\<exists>pre. x # xs = pre @ last ([] # ?L)" by metis
    moreover have "length ([] # ?L) \<noteq> 1" using ne by simp
    ultimately show ?thesis unfolding eq by blast
  next
    case False
    let ?L = "splitStr sep xs"
    from 2(2) [OF False] have ne: "?L \<noteq> []" and ex: "\<exists>pre. xs = pre @ last ?L"
      and one: "length ?L = 1 \<longrightarrow> ?L = [xs]" by blast+
    from ex obtain pre where pre: "xs = pre @ last ?L" by blast
    have app: "x # xs = (x # pre) @ last ?L" using pre by (metis append_Cons)
    obtain p ps where l: "?L = p # ps" using ne by (cases ?L) auto
    from False l have eq: "splitStr sep (x # xs) = (x # p) # ps" by simp
    show ?thesis
    proof (cases "ps = []")
      case True
      with l one have "p = xs" by simp
      with True have "(x # p) # ps = [x # xs]" by simp
      then show ?thesis unfolding eq by simp
    next
      case ps: False
      have "last ((x # p) # ps) = last ?L" using l ps by simp
      with app have "\<exists>pre. x # xs = pre @ last ((x # p) # ps)" by metis
      moreover have "length ((x # p) # ps) \<noteq> 1" using ps by simp
      ultimately show ?thesis unfolding eq by blast
    qed
  qed
qed

lemma hasImageExt_brace: "\<not> hasImageExt (ys @ ''}'')"
  by (simp add: hasImageExt_def imageExtensions_def endsWith_def toLowerCase_def
        toLowerChar_def upperAZ_def lowerAZ_def)

lemma suffix_of_braced:
  assumes "s = pre @ f" and "f \<noteq> []" and "s = xs @ ''}''"
  shows "\<not> hasImageExt f"
proof -
  from assms(2) have "f = butlast f @ [last f]" by simp
  moreover from assms have "last f = CHR ''}''" by (metis last_appendR last_snoc)
  ultimately have "f = butlast f @ ''}''" by simp
  then show ?thesis using hasImageExt_brace by metis
qed

lemma fixHtmlImagePath_braced:
  assumes "\<not> truthy (sfm (''{'' @ i @ ''}''))"
  shows "fixHtmlImagePath sfm g (''{'' @ i @ ''}'') = (''{'' @ i @ ''}'', g)"
proof -
  let ?s = "''{'' @ i @ ''}''"
  have s: "?s = (''{'' @ i) @ ''}''" by simp
  have a: "\<not> (last (splitChar (CHR ''/'') ?s) \<noteq> [] \<and> hasImageExt (last (splitChar (CHR ''/'') ?s)))"
    using splitChar_last [of "CHR ''/''" ?s] suffix_of_braced [OF _ _ s] by blast
  have b: "\<not> (last (splitStr ''images-flat/'' ?s) \<noteq> [] \<and> hasImageExt (last (splitStr ''images-flat/'' ?s)))"
    using splitStr_last [of "''images-flat/''" ?s] suffix_of_braced [OF _ _ s] by blast
  have c: "\<not> startsWith ?s ''data:''" "\<not> startsWith ?s ''http://''" "\<not> startsWith ?s ''https://''"
    "\<not> startsWith ?s ''/''" "?s \<noteq> []"
    by (simp_all add: startsWith_def)
  show ?thesis
    unfolding fixHtmlImagePath_def Let_def
    using a b c assms by (simp only: if_False if_True simp_thms split: if_splits)
qed

lemma fixHtmlImagePath_mapped:
  assumes "src \<noteq> []" and "\<not> startsWith src ''data:''" and "\<not> startsWith src ''http://''"
    and "\<not> startsWith src ''https://''"
    and "(truthy (sfm src) \<and> sfm src = Some fn) \<or>
         (\<not> truthy (sfm src) \<and> startsWith src ''/'' \<and> truthy (sfm (drop 1 src))
            \<and> sfm (drop 1 src) = Some fn)"
    and "hasImageExt fn"
  shows "fixHtmlImagePath sfm g src =
     (''{'' @ generateImageImportName fn @ ''}'',
      g\<lparr>imageImportsMap := assign fn (generateImageImportName fn) (imageImportsMap g)\<rparr>)"
  using assms unfolding fixHtmlImagePath_def Let_def by auto

lemma jsxKeyOf_src: "jsxKeyOf ''src'' = ''src''"
  by code_simp

lemma convertAttribute_src_braced:
  assumes "i \<noteq> []" and "\<not> truthy (sfm (''{'' @ i @ ''}''))"
  shows "convertAttribute json sfm (jsx, ec, g) (''src'', ''{'' @ i @ ''}'')
     = (jsx @ '' src={'' @ i @ ''}'', ec, g)"
proof -
  have k: "toLowerCase ''src'' = ''src''" by code_simp
  have e: "startsWith (CHR ''{'' # i @ ''}'') ''{''" "endsWith (CHR ''{'' # i @ ''}'') ''}''"
    by (simp_all add: startsWith_def endsWith_def)
  have fx: "fixHtmlImagePath sfm g (CHR ''{'' # i @ ''}'') = (CHR ''{'' # i @ ''}'', g)"
    using fixHtmlImagePath_braced [of sfm i, OF assms(2)] by simp
  have d: "\<not> startsWith ''src'' ''data-''" by (simp add: startsWith_def)
  show ?thesis
    unfolding convertAttribute_def Let_def
    using assms(1)
    by (simp add: k e d jsxKeyOf_src fx)
qed

lemma getImageImports_lines:
  "getImageImports g =
     join [CHR 0x0A]
       (map (\<lambda>(filename, importName).
               ''import '' @ importName @ '' from '' @ [CHR 0x27] @ ''./images-flat/'' @ filename
                 @ [CHR 0x27] @ '';'')
          (imageImportsMap g))"
  by (simp add: getImageImports_def)

lemma importTableOk_entry:
  assumes "importTableOk t" and "f \<in> fst ` set t"
  shows "filter (\<lambda>e. fst e = f) t = [(f, generateImageImportName f)]"
  using assms
proof (induction t)
  case Nil
  then show ?case by simp
next
  case (Cons p t)
  obtain k i where p: "p = (k, i)" by (cases p) auto
  from Cons.prems(1) have ok: "importTableOk t" and i: "i = generateImageImportName k"
    and k: "k \<notin> fst ` set t"
    by (auto simp: importTableOk_def p)
  show ?case
  proof (cases "k = f")
    case True
    with k have "filter (\<lambda>e. fst e = f) t = []" by (auto simp: filter_empty_conv)
    with True i show ?thesis by (simp add: p)
  next
    case False
    with Cons.prems(2) have "f \<in> fst ` set t" by (auto simp: p)
    from Cons.IH [OF ok this] False show ?thesis by (simp add: p)
  qed
qed

lemma matchOnHandler_no_quote: "CHR 0x22 \<notin> set s \<Longrightarrow> matchOnHandler s = None"
proof -
  assume a: "CHR 0x22 \<notin> set s"
  have "take 2 (dropWhile isAlpha (drop 2 s)) \<noteq> ''=\"''"
  proof
    assume e: "take 2 (dropWhile isAlpha (drop 2 s)) = ''=\"''"
    have "CHR 0x22 \<in> set (take 2 (dropWhile isAlpha (drop 2 s)))" unfolding e by simp
    then have "CHR 0x22 \<in> set s"
      by (meson in_set_takeD set_dropWhileD in_set_dropD)
    with a show False by simp
  qed
  then show ?thesis by (simp add: matchOnHandler_def Let_def)
qed

lemma replaceOnHandlers_no_quote: "CHR 0x22 \<notin> set s \<Longrightarrow> replaceOnHandlers s = s"
proof (induction s)
  case Nil
  then show ?case by simp
next
  case (Cons c cs)
  from Cons.prems have "matchOnHandler (c # cs) = None" by (rule matchOnHandler_no_quote)
  with Cons show ?case by simp
qed

lemma matchHyphenAttr_no_quote: "CHR 0x22 \<notin> set s \<Longrightarrow> matchHyphenAttr s = None"
proof -
  assume a: "CHR 0x22 \<notin> set s"
  have "take 2 (dropWhile isNameChar s) \<noteq> ''=\"''"
  proof
    assume e: "take 2 (dropWhile isNameChar s) = ''=\"''"
    have "CHR 0x22 \<in> set (take 2 (dropWhile isNameChar s))" unfolding e by simp
    then have "CHR 0x22 \<in> set s" by (meson in_set_takeD set_dropWhileD)
    with a show False by simp
  qed
  then show ?thesis by (simp add: matchHyphenAttr_def Let_def)
qed

lemma replaceHyphenAttrs_no_quote: "CHR 0x22 \<notin> set s \<Longrightarrow> replaceHyphenAttrs s = Inr s"
proof (induction s)
  case Nil
  then show ?case by simp
next
  case (Cons c cs)
  from Cons.prems have "matchHyphenAttr cs = None" by (simp add: matchHyphenAttr_no_quote)
  with Cons show ?case by simp
qed

lemma replaceClassAttrs_no_quote: "CHR 0x22 \<notin> set s \<Longrightarrow> replaceClassAttrs s = s"
proof (induction s)
  case Nil
  then show ?case by simp
next
  case (Cons c cs)
  have "take 7 cs \<noteq> ''class=\"''"
  proof
    assume e: "take 7 cs = ''class=\"''"
    have "CHR 0x22 \<in> set (take 7 cs)" unfolding e by simp
    then have "CHR 0x22 \<in> set cs" by (meson in_set_takeD)
    with Cons.prems show False by simp
  qed
  with Cons show ?case by simp
qed

lemma matchBooleanAttr_no_quote: "CHR 0x22 \<notin> set s \<Longrightarrow> matchBooleanAttr s = None"
proof -
  assume a: "CHR 0x22 \<notin> set s"
  have "\<And>n. take 2 (drop n s) \<noteq> ''=\"''"
  proof
    fix n
    assume e: "take 2 (drop n s) = ''=\"''"
    have "CHR 0x22 \<in> set (take 2 (drop n s))" unfolding e by simp
    then have "CHR 0x22 \<in> set s" by (meson in_set_takeD in_set_dropD)
    with a show False by simp
  qed
  then have "find (\<lambda>a. toLowerCase (take (length a) s) = a \<and> take 2 (drop (length a) s) = ''=\"''
                     \<and> matchBooleanValue (drop (length a + 2) s) \<noteq> None) booleanAttributes = None"
    by (simp add: find_None_iff)
  then show ?thesis by (simp add: matchBooleanAttr_def)
qed

lemma replaceBooleanAttrs_no_quote: "CHR 0x22 \<notin> set s \<Longrightarrow> replaceBooleanAttrs s = s"
proof (induction s)
  case Nil
  then show ?case by simp
next
  case (Cons c cs)
  from Cons.prems have "matchBooleanAttr cs = None" by (simp add: matchBooleanAttr_no_quote)
  with Cons show ?case by simp
qed

lemma postPass_no_quote: "CHR 0x22 \<notin> set s \<Longrightarrow> postPass s = Inr s"
  by (simp add: postPass_def replaceOnHandlers_no_quote replaceHyphenAttrs_no_quote
        replaceClassAttrs_no_quote replaceBooleanAttrs_no_quote)

lemma convertAttributes_src_braced:
  assumes "i \<noteq> []" and "\<not> truthy (sfm (''{'' @ i @ ''}''))"
  shows "convertAttributes json sfm g [(''src'', CHR ''{'' # i @ ''}'')] = ('' src={'' @ i @ ''}'', g)"
  using convertAttribute_src_braced [of i sfm json "[]" None g] assms
  by (simp add: convertAttributes_def)

lemma onopentag_img:
  assumes h: "importable sfm src fn" and t: "tagNameOf name = ''img''"
  shows "onopentag json sfm (ctx, g0) name [(''src'', src)] =
     (if skipTag ctx then ctx\<lparr>depth := depth ctx + 1\<rparr>
      else if inBodyTag ctx
      then ctx\<lparr>outputJsx := outputJsx ctx @ ''<img src={'' @ generateImageImportName fn @ ''} />'',
               stack := (''img'', True) # stack ctx\<rparr>
      else ctx\<lparr>outputBeforeBodyTag :=
                 outputBeforeBodyTag ctx @ ''<img src={'' @ generateImageImportName fn @ ''} />''\<rparr>,
      g0\<lparr>imageImportsMap := assign fn (generateImageImportName fn) (imageImportsMap g0)\<rparr>)"
proof -
  let ?id = "generateImageImportName fn"
  let ?g1 = "g0\<lparr>imageImportsMap := assign fn ?id (imageImportsMap g0)\<rparr>"
  from h have ne: "src \<noteq> []" and idne: "?id \<noteq> []"
    and nk: "\<not> truthy (sfm (''{'' @ ?id @ ''}''))"
    by (simp_all add: importable_def)
  from h have fx: "fixHtmlImagePath sfm g0 src = (CHR ''{'' # ?id @ ''}'', ?g1)"
    using fixHtmlImagePath_mapped [of src sfm fn g0] by (simp add: importable_def)
  have ca: "convertAttributes json sfm ?g1 [(''src'', CHR ''{'' # ?id @ ''}'')]
      = ('' src={'' @ ?id @ ''}'', ?g1)"
    using convertAttributes_src_braced [of ?id sfm json ?g1] idne nk by simp
  have c: "''img'' \<notin> set skipTags" "''img'' \<noteq> ''body''" "''img'' \<noteq> ''style''"
    "''img'' \<in> set selfClosingTags"
    by (simp_all add: skipTags_def selfClosingTags_def)
  show ?thesis
    by (simp add: onopentag_def Let_def t ne fx ca c)
qed

lemma onopentag_body_plain:
  "onopentag json sfm (ctx, g) ''body'' [] =
     (if skipTag ctx then ctx\<lparr>depth := depth ctx + 1\<rparr>
      else ctx\<lparr>inBodyTag := True, bodyTagFound := True, bodyAttributes := Some []\<rparr>, g)"
proof -
  have t: "tagNameOf ''body'' = ''body''" by code_simp
  have c: "''body'' \<notin> set skipTags" by (simp add: skipTags_def)
  show ?thesis by (simp add: onopentag_def Let_def t c)
qed

lemma same_image_twice:
  assumes h: "importable sfm src fn" and q: "CHR 0x22 \<notin> set (generateImageImportName fn)"
  shows "convertHTMLtoJSX json sfm g
           [OpenTag ''body'' [], OpenTag ''img'' [(''src'', src)], CloseTag ''img'',
            OpenTag ''img'' [(''src'', src)], CloseTag ''img'', CloseTag ''body'']
         = (Inr (''<div><img src={'' @ generateImageImportName fn @ ''} /><img src={''
                   @ generateImageImportName fn @ ''} /></div>''),
            g\<lparr>imageImportsMap := [(fn, generateImageImportName fn)]\<rparr>)"
proof -
  let ?id = "generateImageImportName fn"
  let ?out = "''<img src={'' @ ?id @ ''} /><img src={'' @ ?id @ ''} />''"
  have ti: "tagNameOf ''img'' = ''img''" by code_simp
  have tb: "tagNameOf ''body'' = ''body''" by code_simp
  note oi = onopentag_img [OF h ti]
  have r: "runEvents json sfm g
           [OpenTag ''body'' [], OpenTag ''img'' [(''src'', src)], CloseTag ''img'',
            OpenTag ''img'' [(''src'', src)], CloseTag ''img'', CloseTag ''body'']
        = (initialContext\<lparr>bodyTagFound := True, bodyAttributes := Some [], outputJsx := ?out\<rparr>,
           g\<lparr>imageImportsMap := [(fn, ?id)]\<rparr>)"
    by (simp add: runEvents_def oi onopentag_body_plain onclosetag_def ti tb Let_def
          initialContext_def resetImageImports_def)
  have pp: "postPass ?out = Inr ?out"
    by (rule postPass_no_quote) (simp add: q)
  have ca: "convertAttributes json sfm (g\<lparr>imageImportsMap := [(fn, ?id)]\<rparr>) []
      = ([], g\<lparr>imageImportsMap := [(fn, ?id)]\<rparr>)"
    by (simp add: convertAttributes_def)
  show ?thesis
    unfolding convertHTMLtoJSX_def r
    using pp ca by (simp add: initialContext_def)
qed

lemma image_in_discarded_subtree:
  assumes h: "importable sfm src fn"
  shows "convertHTMLtoJSX json sfm g
           [OpenTag ''noscript'' [], OpenTag ''img'' [(''src'', src)], CloseTag ''img'',
            CloseTag ''noscript'']
         = (Inr ''<></>'', g\<lparr>imageImportsMap := [(fn, generateImageImportName fn)]\<rparr>)"
proof -
  let ?id = "generateImageImportName fn"
  have ti: "tagNameOf ''img'' = ''img''" by code_simp
  have tn: "tagNameOf ''noscript'' = ''noscript''" by code_simp
  have c: "''noscript'' \<in> set skipTags" by (simp add: skipTags_def)
  have on: "\<And>ctx g. onopentag json sfm (ctx, g) ''noscript'' [] =
      (ctx\<lparr>skipTag := True, currentSkipTag := Some ''noscript'', depth := 1\<rparr>, g)"
    by (simp add: onopentag_def Let_def tn c)
  note oi = onopentag_img [OF h ti]
  have r: "runEvents json sfm g
           [OpenTag ''noscript'' [], OpenTag ''img'' [(''src'', src)], CloseTag ''img'',
            CloseTag ''noscript'']
        = (initialContext, g\<lparr>imageImportsMap := [(fn, ?id)]\<rparr>)"
    by (simp add: runEvents_def oi on onclosetag_def ti tn Let_def initialContext_def
          resetImageImports_def)
  have pp: "postPass [] = Inr []" by (simp add: postPass_def)
  show ?thesis
    unfolding convertHTMLtoJSX_def r
    using pp by (simp add: initialContext_def)
qed

text \<open>
  C8, as amended. After a conversion the import table holds no file name twice and every
  entry holds the identifier generated from its file name; \<^verbatim>\<open>getImageImports\<close> writes one
  import line for each entry, so a file name has one import line and every reference to
  it uses one identifier; registering a file name again changes nothing. An \<^verbatim>\<open>img\<close> whose
  \<^verbatim>\<open>src\<close> is not a \<^verbatim>\<open>data:\<close>, \<^verbatim>\<open>http://\<close> or \<^verbatim>\<open>https://\<close> URL, and for which the map (at the
  value, or at the value without its leading slash) gives a file name with an image
  extension, is registered by the open-tag handler, also inside a discarded subtree,
  where the tag is not emitted. Outside a discarded subtree the tag is emitted as
  \<^verbatim>\<open><img src={identifier} />\<close>, provided the identifier is not empty and the braced
  identifier is not itself a key of the map. A document with two such images of one
  source returns both tags with the one identifier and has one import line, when the
  identifier holds no double quote.
\<close>

theorem C8_import_table:
  "importTableOk (imageImportsMap (snd (convertHTMLtoJSX json sfm g evs)))
   \<and> (f \<in> fst ` set (imageImportsMap (snd (convertHTMLtoJSX json sfm g evs)))
      \<longrightarrow> filter (\<lambda>e. fst e = f) (imageImportsMap (snd (convertHTMLtoJSX json sfm g evs)))
            = [(f, generateImageImportName f)])
   \<and> getImageImports g' =
        join [CHR 0x0A]
          (map (\<lambda>(filename, importName).
                  ''import '' @ importName @ '' from '' @ [CHR 0x27] @ ''./images-flat/''
                    @ filename @ [CHR 0x27] @ '';'')
             (imageImportsMap g'))
   \<and> assign f i (assign f i t) = assign f i t
   \<and> (importable sfm src fn
      \<longrightarrow> fixHtmlImagePath sfm g0 src =
            (''{'' @ generateImageImportName fn @ ''}'',
             g0\<lparr>imageImportsMap :=
                  assign fn (generateImageImportName fn) (imageImportsMap g0)\<rparr>)
          \<and> convertAttribute json sfm (jsx, ec, g1)
               (''src'', ''{'' @ generateImageImportName fn @ ''}'')
             = (jsx @ '' src={'' @ generateImageImportName fn @ ''}'', ec, g1)
          \<and> (tagNameOf name = ''img''
             \<longrightarrow> onopentag json sfm (ctx, g0) name [(''src'', src)] =
                   (if skipTag ctx then ctx\<lparr>depth := depth ctx + 1\<rparr>
                    else if inBodyTag ctx
                    then ctx\<lparr>outputJsx :=
                               outputJsx ctx @ ''<img src={'' @ generateImageImportName fn @ ''} />'',
                             stack := (''img'', True) # stack ctx\<rparr>
                    else ctx\<lparr>outputBeforeBodyTag :=
                               outputBeforeBodyTag ctx
                                 @ ''<img src={'' @ generateImageImportName fn @ ''} />''\<rparr>,
                    g0\<lparr>imageImportsMap :=
                         assign fn (generateImageImportName fn) (imageImportsMap g0)\<rparr>))
          \<and> (CHR 0x22 \<notin> set (generateImageImportName fn)
             \<longrightarrow> convertHTMLtoJSX json sfm g
                     [OpenTag ''body'' [], OpenTag ''img'' [(''src'', src)], CloseTag ''img'',
                      OpenTag ''img'' [(''src'', src)], CloseTag ''img'', CloseTag ''body'']
                   = (Inr (''<div><img src={'' @ generateImageImportName fn @ ''} /><img src={''
                             @ generateImageImportName fn @ ''} /></div>''),
                      g\<lparr>imageImportsMap := [(fn, generateImageImportName fn)]\<rparr>)
                 \<and> getImageImports (g\<lparr>imageImportsMap := [(fn, generateImageImportName fn)]\<rparr>)
                   = ''import '' @ generateImageImportName fn @ '' from '' @ [CHR 0x27]
                       @ ''./images-flat/'' @ fn @ [CHR 0x27] @ '';'')
          \<and> convertHTMLtoJSX json sfm g
                [OpenTag ''noscript'' [], OpenTag ''img'' [(''src'', src)], CloseTag ''img'',
                 CloseTag ''noscript'']
              = (Inr ''<></>'', g\<lparr>imageImportsMap := [(fn, generateImageImportName fn)]\<rparr>))"
proof -
  let ?t = "imageImportsMap (snd (convertHTMLtoJSX json sfm g evs))"
  have a: "importTableOk ?t" by (rule convertHTMLtoJSX_ok)
  have b: "f \<in> fst ` set ?t \<longrightarrow> filter (\<lambda>e. fst e = f) ?t = [(f, generateImageImportName f)]"
    using importTableOk_entry [OF a] by blast
  note c = getImageImports_lines [of g']
  note d = assign_idem [of f i t]
  have e: "importable sfm src fn \<Longrightarrow> fixHtmlImagePath sfm g0 src =
            (''{'' @ generateImageImportName fn @ ''}'',
             g0\<lparr>imageImportsMap :=
                  assign fn (generateImageImportName fn) (imageImportsMap g0)\<rparr>)"
    using fixHtmlImagePath_mapped [of src sfm fn g0] by (simp add: importable_def)
  have e2: "importable sfm src fn \<Longrightarrow> convertAttribute json sfm (jsx, ec, g1)
               (''src'', ''{'' @ generateImageImportName fn @ ''}'')
             = (jsx @ '' src={'' @ generateImageImportName fn @ ''}'', ec, g1)"
    using convertAttribute_src_braced [of "generateImageImportName fn" sfm json jsx ec g1]
    by (simp add: importable_def)
  have l: "getImageImports (g\<lparr>imageImportsMap := [(fn, generateImageImportName fn)]\<rparr>)
                   = ''import '' @ generateImageImportName fn @ '' from '' @ [CHR 0x27]
                       @ ''./images-flat/'' @ fn @ [CHR 0x27] @ '';''"
    by (simp add: getImageImports_def)
  from a b c d e e2 l onopentag_img [of sfm src fn name json ctx g0]
    same_image_twice [of sfm src fn json g] image_in_discarded_subtree [of sfm src fn json g]
  show ?thesis by blast
qed

text \<open>
  The theorem at the image and the map of the specification's scenario: a second
  registration into a table that holds the file already, two images of one source in a
  body, and an image inside \<^verbatim>\<open>noscript\<close>.
\<close>

theorem C8_import_table_witness:
  "importable [''/front/assets/logo-abc.png'' \<mapsto> ''_logo_abc.png''] ''/front/assets/logo-abc.png''
      ''_logo_abc.png''
   \<and> onopentag (\<lambda>_. None) [''/front/assets/logo-abc.png'' \<mapsto> ''_logo_abc.png'']
        (initialContext\<lparr>inBodyTag := True\<rparr>,
         initialGlobals\<lparr>imageImportsMap := [(''_logo_abc.png'', ''LogoAbc'')]\<rparr>)
        ''img'' [(''src'', ''/front/assets/logo-abc.png'')]
       = (initialContext\<lparr>inBodyTag := True, outputJsx := ''<img src={LogoAbc} />'',
                          stack := [(''img'', True)]\<rparr>,
          initialGlobals\<lparr>imageImportsMap := [(''_logo_abc.png'', ''LogoAbc'')]\<rparr>)
   \<and> convertHTMLtoJSX (\<lambda>_. None) [''/front/assets/logo-abc.png'' \<mapsto> ''_logo_abc.png'']
        initialGlobals
        [OpenTag ''body'' [], OpenTag ''img'' [(''src'', ''/front/assets/logo-abc.png'')],
         CloseTag ''img'', OpenTag ''img'' [(''src'', ''/front/assets/logo-abc.png'')],
         CloseTag ''img'', CloseTag ''body'']
       = (Inr ''<div><img src={LogoAbc} /><img src={LogoAbc} /></div>'',
          initialGlobals\<lparr>imageImportsMap := [(''_logo_abc.png'', ''LogoAbc'')]\<rparr>)
   \<and> getImageImports (initialGlobals\<lparr>imageImportsMap := [(''_logo_abc.png'', ''LogoAbc'')]\<rparr>)
       = ''import LogoAbc from './images-flat/_logo_abc.png';''
   \<and> convertHTMLtoJSX (\<lambda>_. None) [''/front/assets/logo-abc.png'' \<mapsto> ''_logo_abc.png'']
        initialGlobals
        [OpenTag ''noscript'' [], OpenTag ''img'' [(''src'', ''/front/assets/logo-abc.png'')],
         CloseTag ''img'', CloseTag ''noscript'']
       = (Inr ''<></>'', initialGlobals\<lparr>imageImportsMap := [(''_logo_abc.png'', ''LogoAbc'')]\<rparr>)"
proof -
  let ?m = "[''/front/assets/logo-abc.png'' \<mapsto> ''_logo_abc.png'']"
  let ?src = "''/front/assets/logo-abc.png''"
  let ?g0 = "initialGlobals\<lparr>imageImportsMap := [(''_logo_abc.png'', ''LogoAbc'')]\<rparr>"
  have n: "generateImageImportName ''_logo_abc.png'' = ''LogoAbc''" by code_simp
  have p: "importable ?m ?src ''_logo_abc.png''" by code_simp
  have ti: "tagNameOf ''img'' = ''img''" by code_simp
  have q: "CHR 0x22 \<notin> set (generateImageImportName ''_logo_abc.png'')" by (simp add: n)
  from C8_import_table [of "\<lambda>_. None" ?m initialGlobals "[]" "''a''" ?g0 "''b''" "[]" ?src
      "''_logo_abc.png''" ?g0 "[]" None initialGlobals "''img''"
      "initialContext\<lparr>inBodyTag := True\<rparr>"] p ti q
  show ?thesis by (simp add: n initialContext_def initialGlobals_def)
qed

text \<open>
  An image whose \<^verbatim>\<open>src\<close> is an absolute URL is left as it is, also when the URL is a
  key of the map: the attribute stays a quoted string and nothing is imported.
\<close>

theorem C8_counterexample:
  "convertHTMLtoJSX (\<lambda>_. None) [''https://x.io/a.png'' \<mapsto> ''_a.png''] initialGlobals
      [OpenTag ''img'' [(''src'', ''https://x.io/a.png'')], CloseTag ''img'']
     = (Inr ''<><img src=\"https://x.io/a.png\" /></img></>'', initialGlobals)"
  by code_simp

subsection \<open>Data attributes\<close>

lemma table_no_data_keys:
  "list_all (\<lambda>k. \<not> startsWith k ''data-'')
     (map fst (svgAttributes @ attributeRenameMap @
        [(''constructor'', ''function Object() { [native code] }''), (''__proto__'', ''[object Object]'')]))"
  by (simp add: svgAttributes_def attributeRenameMap_def startsWith_def)

lemma data_key_lookup:
  assumes "startsWith kl ''data-''"
  shows "attributeRenameLookup kl = None"
proof -
  have a: "map_of (svgAttributes @ attributeRenameMap) kl = None"
    using table_no_data_keys assms
    unfolding map_of_eq_None_iff list_all_iff by auto
  have b: "map_of [(''constructor'', ''function Object() { [native code] }''),
                  (''__proto__'', ''[object Object]'')] kl = None"
    using table_no_data_keys assms
    unfolding map_of_eq_None_iff list_all_iff by auto
  show ?thesis by (simp only: attributeRenameLookup_def a b option.case)
qed

lemma data_key_facts:
  assumes "startsWith kl ''data-''"
  shows "kl \<noteq> ''class''" "kl \<noteq> ''classname''" "kl \<noteq> ''style''"
        "\<not> startsWith kl ''on''" "CHR ''-'' \<in> set kl"
proof -
  from assms have "take (length ''data-'') kl = ''data-''" unfolding startsWith_def by assumption
  then have "kl = ''data-'' @ drop (length ''data-'') kl" by (metis append_take_drop_id)
  then obtain r where r: "kl = ''data-'' @ r" ..
  show "kl \<noteq> ''class''" "kl \<noteq> ''classname''" "kl \<noteq> ''style''" "\<not> startsWith kl ''on''" "CHR ''-'' \<in> set kl"
    by (simp_all add: r startsWith_def)
qed

text \<open>
  C9, as amended. For an attribute whose name in lower case starts with \<^verbatim>\<open>data-\<close> and has
  no colon, and whose value is not empty and none of \<^verbatim>\<open>{}\<close>, \<^verbatim>\<open>[]\<close>, \<^verbatim>\<open>null\<close>, the emitted
  name is the lower-case name in which every hyphen that stands before a lower-case
  letter is dropped and that letter capitalized; a hyphen before anything else stays.
  The value is the re-serialized JSON, or the raw value where it is not JSON, with its
  double quotes written as \<^verbatim>\<open>&quot;\<close>.
\<close>

theorem C9_data_attribute_name:
  assumes "startsWith (toLowerCase key) ''data-''" and "CHR '':'' \<notin> set key"
      and "value \<noteq> []" "value \<noteq> ''{}''" "value \<noteq> ''[]''" "value \<noteq> ''null''"
  shows "convertAttribute json sfm (jsx, existingClass, g) (key, value) =
     (jsx @ '' '' @ camelCase (toLowerCase key) @ ''=\"''
        @ escapeQuotes (case json value of Some j \<Rightarrow> j | None \<Rightarrow> value) @ ''\"'',
      existingClass, g)"
  using assms data_key_facts [OF assms(1)] data_key_lookup [OF assms(1)]
  by (simp add: convertAttribute_def jsxKeyOf_def Let_def)

text \<open>The theorem at \<^verbatim>\<open>data-foo="bar"\<close>.\<close>

theorem C9_data_attribute_name_witness:
  "startsWith (toLowerCase ''data-foo'') ''data-''
   \<and> convertAttribute (\<lambda>_. None) (\<lambda>_. None) ([], None, initialGlobals) (''data-foo'', ''bar'')
       = ('' dataFoo=\"bar\"'', None, initialGlobals)"
proof -
  have h1: "startsWith (toLowerCase ''data-foo'') ''data-''" by code_simp
  have h2: "CHR '':'' \<notin> set ''data-foo''" by simp
  have h3: "''bar'' \<noteq> []" "''bar'' \<noteq> ''{}''" "''bar'' \<noteq> ''[]''" "''bar'' \<noteq> ''null''"
    by simp_all
  have c: "camelCase (toLowerCase ''data-foo'') = ''dataFoo''" by code_simp
  have e: "escapeQuotes ''bar'' = ''bar''" by code_simp
  from C9_data_attribute_name [OF h1 h2 h3, of "\<lambda>_. None" "\<lambda>_. None" "[]" None initialGlobals]
  show ?thesis by (simp add: h1 c e)
qed

text \<open>
  A hyphen that stands before a digit stays: the hyphenated name is emitted as it is. And
  for the value \<^verbatim>\<open>{}\<close>, which is not empty, no attribute is emitted at all.
\<close>

theorem C9_counterexample:
  "fst (convertAttributes (\<lambda>_. None) (\<lambda>_. None) initialGlobals [(''data-1'', ''x'')])
     = '' data-1=\"x\"''
   \<and> fst (convertAttributes (\<lambda>_. None) (\<lambda>_. None) initialGlobals [(''data-props'', ''{}'')])
       = []"
  by code_simp

subsection \<open>The class counter across calls\<close>

lemma fixHtmlImagePath_counter:
  "customClassCounter (snd (fixHtmlImagePath sfm g src)) = customClassCounter g"
  unfolding fixHtmlImagePath_def Let_def by (simp split: option.splits)

lemma convertAttribute_counter:
  "customClassCounter (snd (snd acc))
     \<le> customClassCounter (snd (snd (convertAttribute json sfm acc entry)))"
proof -
  obtain jsx ec g where acc: "acc = (jsx, ec, g)" by (cases acc) auto
  obtain key val where en: "entry = (key, val)" by (cases entry) auto
  show ?thesis
    unfolding acc en convertAttribute_def Let_def
    by (simp add: fixHtmlImagePath_counter case_prod_beta split: option.splits)
qed

lemma foldl_convertAttribute_counter:
  "customClassCounter (snd (snd acc))
     \<le> customClassCounter (snd (snd (foldl (convertAttribute json sfm) acc attrs)))"
proof (induction attrs arbitrary: acc)
  case Nil
  then show ?case by simp
next
  case (Cons a attrs)
  have "customClassCounter (snd (snd acc))
      \<le> customClassCounter (snd (snd (convertAttribute json sfm acc a)))"
    by (rule convertAttribute_counter)
  also have "\<dots> \<le> customClassCounter (snd (snd (foldl (convertAttribute json sfm)
      (convertAttribute json sfm acc a) attrs)))"
    by (rule Cons.IH)
  finally show ?case by simp
qed

lemma convertAttributes_counter:
  "customClassCounter g \<le> customClassCounter (snd (convertAttributes json sfm g attrs))"
  using foldl_convertAttribute_counter [of "([], None, g)" json sfm attrs]
  unfolding convertAttributes_def by (simp add: case_prod_beta split: option.splits)

lemma onopentag_counter:
  "customClassCounter (snd st) \<le> customClassCounter (snd (onopentag json sfm st name attrs))"
proof -
  obtain ctx g where st: "st = (ctx, g)" by (cases st) auto
  have a: "\<And>as. customClassCounter g \<le> customClassCounter (snd (convertAttributes json sfm g as))"
    by (rule convertAttributes_counter)
  have b: "\<And>src as. customClassCounter g
      \<le> customClassCounter (snd (convertAttributes json sfm (snd (fixHtmlImagePath sfm g src)) as))"
    using convertAttributes_counter [of "snd (fixHtmlImagePath sfm g src)" for src]
    by (simp add: fixHtmlImagePath_counter)
  show ?thesis
    unfolding st onopentag_def Let_def
    by (simp add: a b fixHtmlImagePath_counter case_prod_beta split: option.splits)
qed

lemma handleEvent_counter:
  "customClassCounter (snd st) \<le> customClassCounter (snd (handleEvent json sfm st e))"
proof (cases e)
  case (OpenTag name attrs)
  then show ?thesis using onopentag_counter [of st json sfm name attrs] by simp
qed (cases st; simp)+

lemma runEvents_counter:
  "customClassCounter g \<le> customClassCounter (snd (runEvents json sfm g evs))"
proof (induction evs rule: rev_induct)
  case Nil
  then show ?case by (simp add: runEvents_def resetImageImports_def)
next
  case (snoc e evs)
  from snoc handleEvent_counter [of "runEvents json sfm g evs" json sfm e]
  show ?case by (simp add: runEvents_snoc)
qed

lemma convertHTMLtoJSX_counter:
  "customClassCounter g \<le> customClassCounter (snd (convertHTMLtoJSX json sfm g evs))"
proof -
  let ?r = "runEvents json sfm g evs"
  have a: "customClassCounter g \<le> customClassCounter (snd ?r)" by (rule runEvents_counter)
  have b: "\<And>as. customClassCounter g \<le> customClassCounter (snd (convertAttributes json sfm (snd ?r) as))"
    using a convertAttributes_counter [of "snd ?r"] by (meson le_trans)
  show ?thesis
    unfolding convertHTMLtoJSX_def Let_def
    by (simp add: a b case_prod_beta split: sum.splits option.splits)
qed

lemma convertAttribute_style_counter:
  assumes "toLowerCase key = ''style''"
    and "value \<noteq> []" "value \<noteq> ''{}''" "value \<noteq> ''[]''" "value \<noteq> ''null''"
    and "snd (convertStyle value) \<noteq> []"
  shows "customClassCounter (snd (snd (convertAttribute json sfm (jsx, ec, g) (key, value))))
           = customClassCounter g + 1"
  using assms unfolding convertAttribute_def Let_def
  by (simp add: case_prod_beta)

text \<open>
  C10, as amended. The conversion is not a function of its arguments alone: the counter
  behind \<^verbatim>\<open>custom-var-N\<close> belongs to the module, no call lowers or resets it, and every
  style attribute with a custom property that the attribute loop converts raises it by
  one. Two consecutive calls on \<^verbatim>\<open><div style="--x:1px">Hi</div>\<close> in a fresh module
  return different strings, with \<^verbatim>\<open>custom-var-1\<close> and then \<^verbatim>\<open>custom-var-2\<close>.
\<close>

theorem C10_counter_persists:
  "customClassCounter g \<le> customClassCounter (snd (convertHTMLtoJSX json sfm g evs))
   \<and> (toLowerCase key = ''style'' \<and> value \<noteq> [] \<and> value \<noteq> ''{}'' \<and> value \<noteq> ''[]''
        \<and> value \<noteq> ''null'' \<and> snd (convertStyle value) \<noteq> []
      \<longrightarrow> customClassCounter (snd (snd (convertAttribute json sfm (jsx, ec, g) (key, value))))
            = customClassCounter g + 1)
   \<and> fst (convertHTMLtoJSX json sfm initialGlobals
            [OpenTag ''div'' [(''style'', ''--x:1px'')], Text ''Hi'', CloseTag ''div''])
       = Inr ''<><div className=\"custom-var-1\">Hi</div></>''
   \<and> fst (convertHTMLtoJSX json sfm
            (snd (convertHTMLtoJSX json sfm initialGlobals
                    [OpenTag ''div'' [(''style'', ''--x:1px'')], Text ''Hi'', CloseTag ''div'']))
            [OpenTag ''div'' [(''style'', ''--x:1px'')], Text ''Hi'', CloseTag ''div''])
       = Inr ''<><div className=\"custom-var-2\">Hi</div></>''"
proof -
  have a: "fst (convertHTMLtoJSX json sfm initialGlobals
            [OpenTag ''div'' [(''style'', ''--x:1px'')], Text ''Hi'', CloseTag ''div''])
       = Inr ''<><div className=\"custom-var-1\">Hi</div></>''"
    by code_simp
  have b: "fst (convertHTMLtoJSX json sfm
            (snd (convertHTMLtoJSX json sfm initialGlobals
                    [OpenTag ''div'' [(''style'', ''--x:1px'')], Text ''Hi'', CloseTag ''div'']))
            [OpenTag ''div'' [(''style'', ''--x:1px'')], Text ''Hi'', CloseTag ''div''])
       = Inr ''<><div className=\"custom-var-2\">Hi</div></>''"
    by code_simp
  from convertHTMLtoJSX_counter [of g json sfm evs]
    convertAttribute_style_counter [of key "value" json sfm jsx ec g] a b
  show ?thesis by blast
qed

text \<open>The theorem at the style attribute \<^verbatim>\<open>--x:1px\<close>.\<close>

theorem C10_counter_persists_witness:
  "snd (convertStyle ''--x:1px'') \<noteq> []
   \<and> customClassCounter (snd (snd (convertAttribute (\<lambda>_. None) (\<lambda>_. None)
        ([], None, initialGlobals) (''style'', ''--x:1px'')))) = 1"
proof -
  have h: "toLowerCase ''style'' = ''style'' \<and> ''--x:1px'' \<noteq> [] \<and> ''--x:1px'' \<noteq> ''{}''
      \<and> ''--x:1px'' \<noteq> ''[]'' \<and> ''--x:1px'' \<noteq> ''null'' \<and> snd (convertStyle ''--x:1px'') \<noteq> []"
    by code_simp
  have z: "customClassCounter initialGlobals = 0" by (simp add: initialGlobals_def)
  from C10_counter_persists [of initialGlobals "\<lambda>_. None" "\<lambda>_. None" "[]" "''style''" "''--x:1px''"
      "[]" None] h
  show ?thesis by (simp add: z)
qed

text \<open>
  A style attribute with a custom property inside a discarded subtree is not converted:
  two consecutive calls on \<^verbatim>\<open><head><div style="--x:1px"></div></head>\<close> return the same
  string.
\<close>

theorem C10_counterexample:
  "fst (convertHTMLtoJSX (\<lambda>_. None) (\<lambda>_. None) initialGlobals
          [OpenTag ''head'' [], OpenTag ''div'' [(''style'', ''--x:1px'')], CloseTag ''div'',
           CloseTag ''head''])
     = Inr ''<></>''
   \<and> fst (convertHTMLtoJSX (\<lambda>_. None) (\<lambda>_. None)
          (snd (convertHTMLtoJSX (\<lambda>_. None) (\<lambda>_. None) initialGlobals
                  [OpenTag ''head'' [], OpenTag ''div'' [(''style'', ''--x:1px'')], CloseTag ''div'',
                   CloseTag ''head'']))
          [OpenTag ''head'' [], OpenTag ''div'' [(''style'', ''--x:1px'')], CloseTag ''div'',
           CloseTag ''head''])
     = Inr ''<></>''"
  by code_simp

end
